theory Spec2Isabelle
  imports Main
begin

section \<open>JavaScript values\<close>

text \<open>
  The values that \<^verbatim>\<open>JSON.parse\<close> produces and that the tool layer receives as
  \<^verbatim>\<open>toolCall.input\<close>. A number is kept as an integer when its decimal value is
  integral (\<^verbatim>\<open>Number.isInteger\<close>), and otherwise as the text of its literal with
  its value \<open>m / 10 ^ k\<close>: the rounding of IEEE doubles is outside this model. An object is its list of
  members in source order; a property read takes the last member of that name,
  as a JavaScript object built from the text does.
\<close>

datatype jsnum = NInt int | NFrac string int nat

datatype json =
    JNull
  | JBool bool
  | JNumber jsnum
  | JString string
  | JArray "json list"
  | JObject "(string \<times> json) list"

subsection \<open>Decimal digits\<close>

definition is_digit :: "char \<Rightarrow> bool" where
  "is_digit c = (48 \<le> (of_char c :: nat) \<and> (of_char c :: nat) \<le> 57)"

definition digit_val :: "char \<Rightarrow> nat" where
  "digit_val c = of_char c - 48"

definition digit_char :: "nat \<Rightarrow> char" where
  "digit_char n = char_of (48 + n)"

text \<open>\<^verbatim>\<open>parseInt\<close> on a string of decimal digits.\<close>

fun digits_val_acc :: "nat \<Rightarrow> string \<Rightarrow> nat" where
  "digits_val_acc acc [] = acc"
| "digits_val_acc acc (c # cs) = digits_val_acc (10 * acc + digit_val c) cs"

definition digits_val :: "string \<Rightarrow> nat" where
  "digits_val s = digits_val_acc 0 s"

text \<open>The decimal rendering of a natural number in exactly \<open>w\<close> digits (\<^verbatim>\<open>padStart\<close>
  with zeros; the higher digits are cut when the number is too long).\<close>

fun pad_digits :: "nat \<Rightarrow> nat \<Rightarrow> string" where
  "pad_digits 0 n = []"
| "pad_digits (Suc w) n = pad_digits w (n div 10) @ [digit_char (n mod 10)]"

text \<open>The decimal rendering without leading zeros (\<^verbatim>\<open>String(n)\<close>).\<close>

fun nat_digits_fuel :: "nat \<Rightarrow> nat \<Rightarrow> string" where
  "nat_digits_fuel 0 n = []"
| "nat_digits_fuel (Suc k) n =
     (if n < 10 then [digit_char n] else nat_digits_fuel k (n div 10) @ [digit_char (n mod 10)])"

definition string_of_nat :: "nat \<Rightarrow> string" where
  "string_of_nat n = nat_digits_fuel (Suc n) n"

definition string_of_int :: "int \<Rightarrow> string" where
  "string_of_int i = (if i < 0 then CHR ''-'' # string_of_nat (nat (- i)) else string_of_nat (nat i))"

section \<open>JSON.parse\<close>

text \<open>
  \<^verbatim>\<open>JSON.parse\<close> is a builtin of the language. It is modelled on the JSON grammar
  of ECMA-404: a lexer that reads the text character by character, and a parser
  with an explicit stack of open arrays and objects over the tokens. \<open>None\<close> is
  the \<^verbatim>\<open>SyntaxError\<close> that \<^verbatim>\<open>JSON.parse\<close> throws. An escape \<^verbatim>\<open>\uXXXX\<close> below
  \<^verbatim>\<open>0080\<close> is decoded; a higher one is kept as written.
\<close>

datatype token =
    TLBrace | TRBrace | TLBrack | TRBrack | TColon | TComma
  | TStr string | TNum string | TWord string

datatype lexmode =
    LStart
  | LStr string
  | LEsc string
  | LUni nat string string
  | LNum string
  | LWord string

definition is_ws :: "char \<Rightarrow> bool" where
  "is_ws c = (c = CHR '' '' \<or> c = CHR 0x09 \<or> c = CHR 0x0A \<or> c = CHR 0x0D)"

definition is_num_char :: "char \<Rightarrow> bool" where
  "is_num_char c = (is_digit c \<or> c = CHR ''-'' \<or> c = CHR ''+'' \<or> c = CHR ''.''
     \<or> c = CHR ''e'' \<or> c = CHR ''E'')"

definition is_lower :: "char \<Rightarrow> bool" where
  "is_lower c = (97 \<le> (of_char c :: nat) \<and> (of_char c :: nat) \<le> 122)"

definition is_hex :: "char \<Rightarrow> bool" where
  "is_hex c = (is_digit c
     \<or> (97 \<le> (of_char c :: nat) \<and> (of_char c :: nat) \<le> 102)
     \<or> (65 \<le> (of_char c :: nat) \<and> (of_char c :: nat) \<le> 70))"

definition hex_val :: "char \<Rightarrow> nat" where
  "hex_val c = (if is_digit c then of_char c - 48
     else if 97 \<le> (of_char c :: nat) then of_char c - 87 else of_char c - 55)"

fun hex_acc :: "nat \<Rightarrow> string \<Rightarrow> nat" where
  "hex_acc acc [] = acc"
| "hex_acc acc (c # cs) = hex_acc (16 * acc + hex_val c) cs"

text \<open>The characters of a decoded \<^verbatim>\<open>\uXXXX\<close>, given its four hex digits.\<close>

definition unicode_escape :: "string \<Rightarrow> string" where
  "unicode_escape hs = (if hex_acc 0 hs < 128 then [char_of (hex_acc 0 hs)]
     else CHR 0x5C # CHR ''u'' # hs)"

text \<open>The grammar of a number: \<^verbatim>\<open>-?(0|[1-9][0-9]*)(\.[0-9]+)?([eE][+-]?[0-9]+)?\<close>.\<close>

definition split_digits :: "string \<Rightarrow> string \<times> string" where
  "split_digits s = (takeWhile is_digit s, dropWhile is_digit s)"

definition num_exp_ok :: "string \<Rightarrow> bool" where
  "num_exp_ok s = (case s of
       [] \<Rightarrow> True
     | c # r \<Rightarrow> (c = CHR ''e'' \<or> c = CHR ''E'') \<and>
         (let r' = (case r of s1 # r1 \<Rightarrow> (if s1 = CHR ''+'' \<or> s1 = CHR ''-'' then r1 else r) | [] \<Rightarrow> r)
          in r' \<noteq> [] \<and> list_all is_digit r'))"

definition num_frac_ok :: "string \<Rightarrow> bool" where
  "num_frac_ok s = (case s of
       c # r \<Rightarrow> (if c = CHR ''.''
         then fst (split_digits r) \<noteq> [] \<and> num_exp_ok (snd (split_digits r))
         else num_exp_ok s)
     | [] \<Rightarrow> True)"

definition num_int_ok :: "string \<Rightarrow> bool" where
  "num_int_ok s = (case fst (split_digits s) of
       [] \<Rightarrow> False
     | d # ds \<Rightarrow> (d = CHR ''0'' \<longrightarrow> ds = []) \<and> num_frac_ok (snd (split_digits s)))"

definition num_ok :: "string \<Rightarrow> bool" where
  "num_ok s = (case s of c # r \<Rightarrow> (if c = CHR ''-'' then num_int_ok r else num_int_ok s) | [] \<Rightarrow> False)"

text \<open>The value of a number literal that \<open>num_ok\<close> accepts: mantissa and decimal
  exponent, integral or not.\<close>

definition num_value :: "string \<Rightarrow> jsnum" where
  "num_value s =
     (let neg = (s \<noteq> [] \<and> hd s = CHR ''-'');
          body = (if neg then tl s else s);
          ip = fst (split_digits body);
          r1 = snd (split_digits body);
          fp = (case r1 of c # r \<Rightarrow> (if c = CHR ''.'' then fst (split_digits r) else []) | [] \<Rightarrow> []);
          r2 = (case r1 of c # r \<Rightarrow> (if c = CHR ''.'' then snd (split_digits r) else r1) | [] \<Rightarrow> []);
          ex = (case r2 of
                  [] \<Rightarrow> (0::int)
                | _ # r \<Rightarrow> (case r of
                      s1 # r3 \<Rightarrow> (if s1 = CHR ''-'' then - int (digits_val r3)
                                 else if s1 = CHR ''+'' then int (digits_val r3)
                                 else int (digits_val r))
                    | [] \<Rightarrow> 0));
          m = int (digits_val (ip @ fp));
          e = ex - int (length fp);
          sg = (if neg then - 1 else 1)
      in if 0 \<le> e then NInt (sg * m * 10 ^ nat e)
         else if m mod 10 ^ nat (- e) = 0 then NInt (sg * (m div 10 ^ nat (- e)))
         else NFrac s (sg * m) (nat (- e)))"

definition lex_start :: "char \<Rightarrow> token list \<Rightarrow> (lexmode \<times> token list) option" where
  "lex_start c toks =
     (if is_ws c then Some (LStart, toks)
      else if c = CHR ''{'' then Some (LStart, TLBrace # toks)
      else if c = CHR ''}'' then Some (LStart, TRBrace # toks)
      else if c = CHR ''['' then Some (LStart, TLBrack # toks)
      else if c = CHR '']'' then Some (LStart, TRBrack # toks)
      else if c = CHR '':'' then Some (LStart, TColon # toks)
      else if c = CHR '','' then Some (LStart, TComma # toks)
      else if c = CHR 0x22 then Some (LStr [], toks)
      else if c = CHR ''-'' \<or> is_digit c then Some (LNum [c], toks)
      else if is_lower c then Some (LWord [c], toks)
      else None)"

definition escape_char :: "char \<Rightarrow> char option" where
  "escape_char c =
     (if c = CHR 0x22 then Some (CHR 0x22)
      else if c = CHR 0x5C then Some (CHR 0x5C)
      else if c = CHR ''/'' then Some (CHR ''/'')
      else if c = CHR ''b'' then Some (CHR 0x08)
      else if c = CHR ''f'' then Some (CHR 0x0C)
      else if c = CHR ''n'' then Some (CHR 0x0A)
      else if c = CHR ''r'' then Some (CHR 0x0D)
      else if c = CHR ''t'' then Some (CHR 0x09)
      else None)"

text \<open>The tokens so far are kept in reverse; so are the characters of the token
  being read.\<close>

fun lex :: "lexmode \<Rightarrow> token list \<Rightarrow> string \<Rightarrow> token list option" where
  "lex LStart toks [] = Some (rev toks)"
| "lex (LNum acc) toks [] = (if num_ok (rev acc) then Some (rev (TNum (rev acc) # toks)) else None)"
| "lex (LWord acc) toks [] = Some (rev (TWord (rev acc) # toks))"
| "lex (LStr acc) toks [] = None"
| "lex (LEsc acc) toks [] = None"
| "lex (LUni k hs acc) toks [] = None"
| "lex LStart toks (c # cs) =
     (case lex_start c toks of None \<Rightarrow> None | Some (m, toks') \<Rightarrow> lex m toks' cs)"
| "lex (LNum acc) toks (c # cs) =
     (if is_num_char c then lex (LNum (c # acc)) toks cs
      else if num_ok (rev acc) then
        (case lex_start c (TNum (rev acc) # toks) of None \<Rightarrow> None | Some (m, toks') \<Rightarrow> lex m toks' cs)
      else None)"
| "lex (LWord acc) toks (c # cs) =
     (if is_lower c then lex (LWord (c # acc)) toks cs
      else (case lex_start c (TWord (rev acc) # toks) of None \<Rightarrow> None | Some (m, toks') \<Rightarrow> lex m toks' cs))"
| "lex (LStr acc) toks (c # cs) =
     (if c = CHR 0x22 then lex LStart (TStr (rev acc) # toks) cs
      else if c = CHR 0x5C then lex (LEsc acc) toks cs
      else if (of_char c :: nat) < 32 then None
      else lex (LStr (c # acc)) toks cs)"
| "lex (LEsc acc) toks (c # cs) =
     (if c = CHR ''u'' then lex (LUni 4 [] acc) toks cs
      else (case escape_char c of None \<Rightarrow> None | Some d \<Rightarrow> lex (LStr (d # acc)) toks cs))"
| "lex (LUni k hs acc) toks (c # cs) =
     (if \<not> is_hex c then None
      else if k \<le> 1 then lex (LStr (rev (unicode_escape (rev (c # hs))) @ acc)) toks cs
      else lex (LUni (k - 1) (c # hs) acc) toks cs)"

text \<open>The parser: a stack of the arrays and objects that are open, each with what
  it holds so far (in reverse), and the place in the grammar.\<close>

datatype frame = FArr "json list" | FObj "(string \<times> json) list" string

datatype pstate =
    PValue "frame list"
  | PFirstElem "json list" "frame list"
  | PFirstKey "frame list"
  | PKey "(string \<times> json) list" "frame list"
  | PColon "(string \<times> json) list" string "frame list"
  | PAfter json "frame list"

definition word_value :: "string \<Rightarrow> json option" where
  "word_value w = (if w = ''true'' then Some (JBool True)
     else if w = ''false'' then Some (JBool False)
     else if w = ''null'' then Some JNull else None)"

text \<open>A token where a value starts.\<close>

definition start_value :: "token \<Rightarrow> frame list \<Rightarrow> pstate option" where
  "start_value t st = (case t of
       TLBrack \<Rightarrow> Some (PFirstElem [] st)
     | TLBrace \<Rightarrow> Some (PFirstKey st)
     | TStr s \<Rightarrow> Some (PAfter (JString s) st)
     | TNum n \<Rightarrow> Some (PAfter (JNumber (num_value n)) st)
     | TWord w \<Rightarrow> (case word_value w of None \<Rightarrow> None | Some v \<Rightarrow> Some (PAfter v st))
     | _ \<Rightarrow> None)"

fun pstep :: "pstate \<Rightarrow> token \<Rightarrow> pstate option" where
  "pstep (PValue st) t = start_value t st"
| "pstep (PFirstElem es st) t =
     (if t = TRBrack then Some (PAfter (JArray []) st) else start_value t (FArr es # st))"
| "pstep (PFirstKey st) t = (case t of
       TRBrace \<Rightarrow> Some (PAfter (JObject []) st)
     | TStr k \<Rightarrow> Some (PColon [] k st)
     | _ \<Rightarrow> None)"
| "pstep (PKey ms st) t = (case t of TStr k \<Rightarrow> Some (PColon ms k st) | _ \<Rightarrow> None)"
| "pstep (PColon ms k st) t = (if t = TColon then Some (PValue (FObj ms k # st)) else None)"
| "pstep (PAfter v []) t = None"
| "pstep (PAfter v (FArr es # st)) t = (case t of
       TComma \<Rightarrow> Some (PValue (FArr (v # es) # st))
     | TRBrack \<Rightarrow> Some (PAfter (JArray (rev (v # es))) st)
     | _ \<Rightarrow> None)"
| "pstep (PAfter v (FObj ms k # st)) t = (case t of
       TComma \<Rightarrow> Some (PKey ((k, v) # ms) st)
     | TRBrace \<Rightarrow> Some (PAfter (JObject (rev ((k, v) # ms))) st)
     | _ \<Rightarrow> None)"

fun prun :: "pstate \<Rightarrow> token list \<Rightarrow> json option" where
  "prun (PAfter v []) [] = Some v"
| "prun p [] = None"
| "prun p (t # ts) = (case pstep p t of None \<Rightarrow> None | Some p' \<Rightarrow> prun p' ts)"

definition JSON_parse :: "string \<Rightarrow> json option" where
  "JSON_parse s = (case lex LStart [] s of None \<Rightarrow> None | Some ts \<Rightarrow> prun (PValue []) ts)"

section \<open>The streaming aggregator\<close>

text \<open>
  \<^verbatim>\<open>LLM.call\<close> reads the stream of completion chunks and rebuilds the text of the
  answer and the tool calls. A \<^verbatim>\<open>ToolCall\<close> is \<^verbatim>\<open>{id, name, input}\<close>; a chunk carries
  \<^verbatim>\<open>choices[0].delta.content\<close>, \<^verbatim>\<open>choices[0].delta.tool_calls\<close> and
  \<^verbatim>\<open>choices[0].finish_reason\<close>, each of which may be absent; a tool-call delta carries
  \<^verbatim>\<open>index\<close>, \<^verbatim>\<open>id\<close>, \<^verbatim>\<open>function.name\<close> and \<^verbatim>\<open>function.arguments\<close>.
\<close>

record ToolCall =
  tc_id :: string
  tc_name :: string
  tc_input :: json

record tool_call_delta =
  d_index :: "int option"
  d_id :: "string option"
  d_name :: "string option"
  d_arguments :: "string option"

record chunk =
  c_content :: "string option"
  c_tool_calls :: "tool_call_delta list option"
  c_finish_reason :: "string option"

text \<open>The local \<^verbatim>\<open>currentToolCall\<close>: the slot that is being assembled.\<close>

record pending =
  p_index :: int
  p_id :: string
  p_name :: string
  p_arguments :: string

text \<open>
  The variables of the loop: \<^verbatim>\<open>outputText\<close>, \<^verbatim>\<open>toolCalls\<close>, \<^verbatim>\<open>currentToolCall\<close>, and
  what the logger was given: the text fragments passed to \<^verbatim>\<open>logger.streamChunk\<close>, and
  for each \<^verbatim>\<open>logger.error\<close> the argument text that \<^verbatim>\<open>JSON.parse\<close> refused.
\<close>

record agg_state =
  outputText :: string
  streamed :: "string list"
  toolCalls :: "ToolCall list"
  currentToolCall :: "pending option"
  errors :: "string list"

text \<open>\<^verbatim>\<open>x || ''\<close> on an optional string.\<close>

definition or_empty :: "string option \<Rightarrow> string" where
  "or_empty x = (case x of None \<Rightarrow> [] | Some s \<Rightarrow> s)"

text \<open>The object pushed on \<^verbatim>\<open>toolCalls\<close>, when \<^verbatim>\<open>JSON.parse\<close> of the arguments returns.
  The parser is a parameter of the model; \<open>JSON_parse\<close> is the instance.\<close>

definition complete :: "(string \<Rightarrow> json option) \<Rightarrow> pending \<Rightarrow> ToolCall option" where
  "complete parse c = (case parse (p_arguments c) of
       None \<Rightarrow> None
     | Some v \<Rightarrow> Some \<lparr>tc_id = p_id c, tc_name = p_name c, tc_input = v\<rparr>)"

text \<open>The \<^verbatim>\<open>try { toolCalls.push(...) } catch (e) { logger.error(...) }\<close> block, which
  stands twice in the source: where the index changes, and after the loop.\<close>

definition finalize :: "(string \<Rightarrow> json option) \<Rightarrow> agg_state \<Rightarrow> agg_state" where
  "finalize parse st = (case currentToolCall st of
       None \<Rightarrow> st
     | Some c \<Rightarrow> (case complete parse c of
           Some tc \<Rightarrow> st\<lparr>toolCalls := toolCalls st @ [tc]\<rparr>
         | None \<Rightarrow> st\<lparr>errors := errors st @ [p_arguments c]\<rparr>))"

definition open_slot :: "int \<Rightarrow> tool_call_delta \<Rightarrow> pending" where
  "open_slot i d = \<lparr>p_index = i, p_id = or_empty (d_id d), p_name = or_empty (d_name d),
     p_arguments = or_empty (d_arguments d)\<rparr>"

definition extend_slot :: "pending \<Rightarrow> tool_call_delta \<Rightarrow> pending" where
  "extend_slot c d = c\<lparr>p_id := p_id c @ or_empty (d_id d), p_name := p_name c @ or_empty (d_name d),
     p_arguments := p_arguments c @ or_empty (d_arguments d)\<rparr>"

text \<open>The body of \<^verbatim>\<open>for (const toolCallDelta of delta.tool_calls)\<close>.\<close>

definition delta_step :: "(string \<Rightarrow> json option) \<Rightarrow> agg_state \<Rightarrow> tool_call_delta \<Rightarrow> agg_state" where
  "delta_step parse st d = (case d_index d of
       None \<Rightarrow> st
     | Some i \<Rightarrow> (case currentToolCall st of
           None \<Rightarrow> st\<lparr>currentToolCall := Some (open_slot i d)\<rparr>
         | Some c \<Rightarrow>
             (if i \<noteq> p_index c then (finalize parse st)\<lparr>currentToolCall := Some (open_slot i d)\<rparr>
              else st\<lparr>currentToolCall := Some (extend_slot c d)\<rparr>)))"

text \<open>\<^verbatim>\<open>if (delta?.content) { logger.streamChunk(...); outputText += ... }\<close>: the empty
  string is falsy.\<close>

definition content_step :: "agg_state \<Rightarrow> chunk \<Rightarrow> agg_state" where
  "content_step st ch = (case c_content ch of
       None \<Rightarrow> st
     | Some t \<Rightarrow> (if t = [] then st
         else st\<lparr>streamed := streamed st @ [t], outputText := outputText st @ t\<rparr>))"

definition chunk_step :: "(string \<Rightarrow> json option) \<Rightarrow> agg_state \<Rightarrow> chunk \<Rightarrow> agg_state" where
  "chunk_step parse st ch = foldl (delta_step parse) (content_step st ch)
     (case c_tool_calls ch of None \<Rightarrow> [] | Some ds \<Rightarrow> ds)"

definition is_finish :: "chunk \<Rightarrow> bool" where
  "is_finish ch = (c_finish_reason ch = Some ''stop'' \<or> c_finish_reason ch = Some ''tool_calls'')"

text \<open>The \<^verbatim>\<open>for await\<close> loop: it ends with the stream, or at the \<^verbatim>\<open>break\<close> after a chunk
  whose finish reason is \<^verbatim>\<open>stop\<close> or \<^verbatim>\<open>tool_calls\<close>.\<close>

fun consume :: "(string \<Rightarrow> json option) \<Rightarrow> agg_state \<Rightarrow> chunk list \<Rightarrow> agg_state" where
  "consume parse st [] = st"
| "consume parse st (ch # chs) =
     (if is_finish ch then chunk_step parse st ch else consume parse (chunk_step parse st ch) chs)"

definition initial_state :: agg_state where
  "initial_state = \<lparr>outputText = [], streamed = [], toolCalls = [], currentToolCall = None, errors = []\<rparr>"

text \<open>The loop and the finalization after it. \<^verbatim>\<open>LLM.call\<close> returns
  \<^verbatim>\<open>[outputText, toolCalls]\<close> of this state.\<close>

definition LLM_call :: "(string \<Rightarrow> json option) \<Rightarrow> chunk list \<Rightarrow> agg_state" where
  "LLM_call parse chunks = finalize parse (consume parse initial_state chunks)"

subsection \<open>What the stream holds\<close>

text \<open>The chunks that the loop reads: up to the first one with a finish reason.\<close>

fun until_finish :: "chunk list \<Rightarrow> chunk list" where
  "until_finish [] = []"
| "until_finish (ch # chs) = ch # (if is_finish ch then [] else until_finish chs)"

definition stream_deltas :: "chunk list \<Rightarrow> tool_call_delta list" where
  "stream_deltas chunks =
     concat (map (\<lambda>ch. case c_tool_calls ch of None \<Rightarrow> [] | Some ds \<Rightarrow> ds) (until_finish chunks))"

text \<open>The runs of consecutive deltas with one index, each run assembled into a slot.\<close>

fun group :: "pending \<Rightarrow> tool_call_delta list \<Rightarrow> pending list" where
  "group c [] = [c]"
| "group c (d # ds) = (case d_index d of
       None \<Rightarrow> group c ds
     | Some i \<Rightarrow> (if i \<noteq> p_index c then c # group (open_slot i d) ds else group (extend_slot c d) ds))"

fun runs :: "tool_call_delta list \<Rightarrow> pending list" where
  "runs [] = []"
| "runs (d # ds) = (case d_index d of None \<Rightarrow> runs ds | Some i \<Rightarrow> group (open_slot i d) ds)"

definition tool_part :: "agg_state \<Rightarrow> ToolCall list \<times> pending option \<times> string list" where
  "tool_part st = (toolCalls st, currentToolCall st, errors st)"

text \<open>
  What the specification expects of the aggregator: the slot indices in the order
  in which they first appear, and for each slot the concatenation of all its
  fragments, in arrival order, parsed once.
\<close>

definition delta_indices :: "tool_call_delta list \<Rightarrow> int list" where
  "delta_indices ds = List.map_filter d_index ds"

fun first_seen :: "int list \<Rightarrow> int list" where
  "first_seen [] = []"
| "first_seen (i # is) = i # filter (\<lambda>j. j \<noteq> i) (first_seen is)"

definition fragments :: "int \<Rightarrow> tool_call_delta list \<Rightarrow> tool_call_delta list" where
  "fragments i ds = filter (\<lambda>d. d_index d = Some i) ds"

definition gather :: "int \<Rightarrow> tool_call_delta list \<Rightarrow> pending" where
  "gather i fs = \<lparr>p_index = i,
     p_id = concat (map (\<lambda>d. or_empty (d_id d)) fs),
     p_name = concat (map (\<lambda>d. or_empty (d_name d)) fs),
     p_arguments = concat (map (\<lambda>d. or_empty (d_arguments d)) fs)\<rparr>"

definition expected_calls :: "(string \<Rightarrow> json option) \<Rightarrow> tool_call_delta list \<Rightarrow> ToolCall list" where
  "expected_calls parse ds =
     List.map_filter (\<lambda>i. complete parse (gather i (fragments i ds))) (first_seen (delta_indices ds))"

text \<open>The fragments of every slot arrive one after the other: once another index has
  appeared, an index does not come back.\<close>

fun contiguous :: "int list \<Rightarrow> bool" where
  "contiguous [] = True"
| "contiguous (i # is) = (i \<notin> set (dropWhile (\<lambda>j. j = i) is) \<and> contiguous is)"

definition absorb :: "pending \<Rightarrow> tool_call_delta list \<Rightarrow> pending" where
  "absorb c fs = \<lparr>p_index = p_index c,
     p_id = p_id c @ concat (map (\<lambda>d. or_empty (d_id d)) fs),
     p_name = p_name c @ concat (map (\<lambda>d. or_empty (d_name d)) fs),
     p_arguments = p_arguments c @ concat (map (\<lambda>d. or_empty (d_arguments d)) fs)\<rparr>"

definition slot_view :: "pending \<Rightarrow> tool_call_delta list \<Rightarrow> int \<Rightarrow> pending" where
  "slot_view c ds i = (if i = p_index c then absorb c (fragments i ds) else gather i (fragments i ds))"

subsection \<open>Example streams\<close>

text \<open>A chunk with one tool-call fragment, and the chunk that ends a stream.\<close>

definition fragment :: "int \<Rightarrow> string \<Rightarrow> string \<Rightarrow> string \<Rightarrow> chunk" where
  "fragment i cid nm args = \<lparr>c_content = None,
     c_tool_calls = Some [\<lparr>d_index = Some i,
       d_id = (if cid = [] then None else Some cid),
       d_name = (if nm = [] then None else Some nm),
       d_arguments = Some args\<rparr>],
     c_finish_reason = None\<rparr>"

definition text_chunk :: "string \<Rightarrow> chunk" where
  "text_chunk t = \<lparr>c_content = Some t, c_tool_calls = None, c_finish_reason = None\<rparr>"

definition finish_chunk :: "string \<Rightarrow> chunk" where
  "finish_chunk r = \<lparr>c_content = None, c_tool_calls = None, c_finish_reason = Some r\<rparr>"

text \<open>Slot 0's arguments \<^verbatim>\<open>{"eventId":"e1"}\<close> in three fragments, with the one fragment
  of slot 1 between the first and the second.\<close>

definition interleaved_stream :: "chunk list" where
  \<open>interleaved_stream =
    [fragment 0 ''call_a'' ''delete_event'' ''{"eventId":'',
     fragment 1 ''call_b'' ''get_calendars'' ''{}'',
     fragment 0 [] [] ''"e1"'',
     fragment 0 [] [] ''}'',
     finish_chunk ''tool_calls'']\<close>

text \<open>Slot 0's arguments \<^verbatim>\<open>12\<close> in two fragments around the fragment of slot 1.\<close>

definition partial_stream :: "chunk list" where
  \<open>partial_stream =
    [fragment 0 ''call_a'' ''f'' ''1'',
     fragment 1 ''call_b'' ''g'' ''{}'',
     fragment 0 [] [] ''2'']\<close>

text \<open>The same two calls, slot 0 whole before slot 1.\<close>

definition sequential_stream :: "chunk list" where
  \<open>sequential_stream =
    [fragment 0 ''call_a'' ''delete_event'' ''{"eventId":'',
     fragment 0 [] [] ''"e1"'',
     fragment 0 [] [] ''}'',
     fragment 1 ''call_b'' ''get_calendars'' ''{'',
     fragment 1 [] [] ''}'',
     finish_chunk ''tool_calls'']\<close>

text \<open>A stream that stops while the arguments of slot 1 are incomplete; the chunk
  after the stop is not read.\<close>

definition truncated_stream :: "chunk list" where
  \<open>truncated_stream =
    [text_chunk ''Checking'',
     fragment 0 ''call_a'' ''get_calendars'' ''{}'',
     fragment 1 ''call_b'' ''delete_event'' ''{"eventId":'',
     finish_chunk ''stop'',
     fragment 1 [] [] ''"e1"}'']\<close>

section \<open>Dates\<close>

text \<open>
  The time value of a \<^verbatim>\<open>Date\<close> object is a number of milliseconds since the epoch,
  or \<^verbatim>\<open>NaN\<close> (an invalid date), which is \<open>None\<close> here. The calendar follows the
  definitions of the ECMAScript specification (Day, DayFromYear, YearFromTime,
  MonthFromTime, DateFromTime, MakeTime, MakeDay, MakeDate, TimeClip), with the
  integer division of HOL, which rounds down as the specification's floor does.
\<close>

definition msPerDay :: int where
  "msPerDay = 86400000"

definition Day :: "int \<Rightarrow> int" where
  "Day t = t div msPerDay"

definition TimeWithinDay :: "int \<Rightarrow> int" where
  "TimeWithinDay t = t mod msPerDay"

definition DaysInYear :: "int \<Rightarrow> int" where
  "DaysInYear y = (if y mod 4 \<noteq> 0 then 365 else if y mod 100 \<noteq> 0 then 366
     else if y mod 400 \<noteq> 0 then 365 else 366)"

definition DayFromYear :: "int \<Rightarrow> int" where
  "DayFromYear y = 365 * (y - 1970) + (y - 1969) div 4 - (y - 1901) div 100 + (y - 1601) div 400"

definition InLeapYear :: "int \<Rightarrow> bool" where
  "InLeapYear y = (DaysInYear y = 366)"

text \<open>The number of days before month \<open>m\<close> (from 0) in a year.\<close>

definition month_start :: "int \<Rightarrow> bool \<Rightarrow> int" where
  "month_start m leap =
     (if m \<le> 0 then 0 else if m = 1 then 31
      else (if leap then 1 else 0) +
        (if m = 2 then 59 else if m = 3 then 90 else if m = 4 then 120 else if m = 5 then 151
         else if m = 6 then 181 else if m = 7 then 212 else if m = 8 then 243
         else if m = 9 then 273 else if m = 10 then 304 else if m = 11 then 334 else 365))"

definition DaysInMonth :: "int \<Rightarrow> int \<Rightarrow> int" where
  "DaysInMonth y m = month_start (m + 1) (InLeapYear y) - month_start m (InLeapYear y)"

text \<open>MakeDay, MakeTime and MakeDate, on integers.\<close>

definition MakeDay :: "int \<Rightarrow> int \<Rightarrow> int \<Rightarrow> int" where
  "MakeDay year month date =
     (let ym = year + month div 12; mn = month mod 12
      in DayFromYear ym + month_start mn (InLeapYear ym) + date - 1)"

definition MakeTime :: "int \<Rightarrow> int \<Rightarrow> int \<Rightarrow> int \<Rightarrow> int" where
  "MakeTime h m s ms = h * 3600000 + m * 60000 + s * 1000 + ms"

definition MakeDate :: "int \<Rightarrow> int \<Rightarrow> int" where
  "MakeDate day time = day * msPerDay + time"

definition TimeClip :: "int \<Rightarrow> int option" where
  "TimeClip t = (if \<bar>t\<bar> > 8640000000000000 then None else Some t)"

text \<open>A year lasts 365 or 366 days; the search for the year of a day rests on it.\<close>

lemma div_step:
  fixes x n :: int
  assumes n: "0 < n"
  shows "(x + 1) div n = x div n + (if (x + 1) mod n = 0 then 1 else 0)"
proof -
  define q where "q = x div n"
  define r where "r = x mod n"
  have x: "x = n * q + r" by (simp add: q_def r_def)
  have r: "0 \<le> r" "r < n" using n by (simp_all add: r_def)
  show ?thesis
  proof (cases "r + 1 < n")
    case True
    have e: "x + 1 = n * q + (r + 1)" using x by simp
    have "(x + 1) div n = q" using True r by (intro int_div_pos_eq[OF e]) simp_all
    moreover have "(x + 1) mod n = r + 1" using True r by (intro int_mod_pos_eq[OF e]) simp_all
    ultimately show ?thesis using r by (simp add: q_def)
  next
    case False
    then have rn: "r = n - 1" using r by simp
    have e: "x + 1 = n * (q + 1) + 0" using x rn by (simp add: algebra_simps)
    have "(x + 1) div n = q + 1" using n by (intro int_div_pos_eq[OF e]) simp_all
    moreover have "(x + 1) mod n = 0" using n by (intro int_mod_pos_eq[OF e]) simp_all
    ultimately show ?thesis by (simp add: q_def)
  qed
qed

lemma mod4: "((y::int) + 1 - 1969) mod 4 = 0 \<longleftrightarrow> y mod 4 = 0"
  by presburger

lemma mod100: "((y::int) + 1 - 1901) mod 100 = 0 \<longleftrightarrow> y mod 100 = 0"
proof -
  have "(y + 1 - 1901) mod 100 = (y + (- 19) * 100) mod 100" by simp
  also have "\<dots> = y mod 100" by (rule mod_mult_self1)
  finally show ?thesis by simp
qed

lemma mod400: "((y::int) + 1 - 1601) mod 400 = 0 \<longleftrightarrow> y mod 400 = 0"
proof -
  have "(y + 1 - 1601) mod 400 = (y + (- 4) * 400) mod 400" by simp
  also have "\<dots> = y mod 400" by (rule mod_mult_self1)
  finally show ?thesis by simp
qed

lemma mod_400_100: "(y::int) mod 400 = 0 \<Longrightarrow> y mod 100 = 0"
proof -
  assume "y mod 400 = 0"
  then have "400 dvd y" by (simp add: mod_eq_0_iff_dvd)
  moreover have "(100::int) dvd 400" by simp
  ultimately have "100 dvd y" by (rule dvd_trans[rotated])
  then show ?thesis by (simp add: mod_eq_0_iff_dvd)
qed

lemma mod_100_4: "(y::int) mod 100 = 0 \<Longrightarrow> y mod 4 = 0"
proof -
  assume "y mod 100 = 0"
  then have "100 dvd y" by (simp add: mod_eq_0_iff_dvd)
  moreover have "(4::int) dvd 100" by simp
  ultimately have "4 dvd y" by (rule dvd_trans[rotated])
  then show ?thesis by (simp add: mod_eq_0_iff_dvd)
qed

lemma DayFromYear_step: "DayFromYear (y + 1) = DayFromYear y + DaysInYear y"
proof -
  have a: "(y + 1 - 1969) div 4 = (y - 1969) div 4 + (if y mod 4 = 0 then 1 else 0)"
    using div_step[of 4 "y - 1969"] mod4[of y] by (simp add: algebra_simps)
  have b: "(y + 1 - 1901) div 100 = (y - 1901) div 100 + (if y mod 100 = 0 then 1 else 0)"
    using div_step[of 100 "y - 1901"] mod100[of y] by (simp add: algebra_simps)
  have c: "(y + 1 - 1601) div 400 = (y - 1601) div 400 + (if y mod 400 = 0 then 1 else 0)"
    using div_step[of 400 "y - 1601"] mod400[of y] by (simp add: algebra_simps)
  show ?thesis
    unfolding DayFromYear_def DaysInYear_def a b c
    using mod_400_100[of y] mod_100_4[of y] by auto
qed

text \<open>YearFromTime: the largest year that starts on or before the day. The search
  goes up from a year that is not after it.\<close>

function year_from :: "int \<Rightarrow> int \<Rightarrow> int" where
  "year_from y d = (if DayFromYear (y + 1) \<le> d then year_from (y + 1) d else y)"
  by pat_completeness auto
termination
  by (relation "measure (\<lambda>(y, d). nat (d - DayFromYear y))")
     (auto simp: DayFromYear_step DaysInYear_def)

declare year_from.simps [simp del]

definition YearFromDay :: "int \<Rightarrow> int" where
  "YearFromDay d = year_from (1970 + (if 0 \<le> d then d div 366 else d div 365)) d"

definition MonthFromDay :: "int \<Rightarrow> int" where
  "MonthFromDay d =
     (let y = YearFromDay d; k = d - DayFromYear y; leap = InLeapYear y
      in if k < month_start 1 leap then 0 else if k < month_start 2 leap then 1
         else if k < month_start 3 leap then 2 else if k < month_start 4 leap then 3
         else if k < month_start 5 leap then 4 else if k < month_start 6 leap then 5
         else if k < month_start 7 leap then 6 else if k < month_start 8 leap then 7
         else if k < month_start 9 leap then 8 else if k < month_start 10 leap then 9
         else if k < month_start 11 leap then 10 else 11)"

definition DateFromDay :: "int \<Rightarrow> int" where
  "DateFromDay d =
     (let y = YearFromDay d
      in d - DayFromYear y - month_start (MonthFromDay d) (InLeapYear y) + 1)"

definition HourFromTime :: "int \<Rightarrow> int" where
  "HourFromTime t = (t div 3600000) mod 24"

definition MinFromTime :: "int \<Rightarrow> int" where
  "MinFromTime t = (t div 60000) mod 60"

definition SecFromTime :: "int \<Rightarrow> int" where
  "SecFromTime t = (t div 1000) mod 60"

definition msFromTime :: "int \<Rightarrow> int" where
  "msFromTime t = t mod 1000"

subsection \<open>The environment of the program\<close>

text \<open>
  What the program reads from its runtime and does not define: the offset of
  local time (LocalTZA of the specification, for a UTC time and for a local
  time), the name of the local zone, what \<^verbatim>\<open>new Date(string)\<close> makes of a string
  outside the date-time format (the specification leaves it to the engine), and
  the rendering of an instant by \<^verbatim>\<open>toLocaleString\<close>.
\<close>

record js_env =
  tza_utc :: "int \<Rightarrow> int"
  tza_local :: "int \<Rightarrow> int"
  zone_name :: string
  engine_parse :: "string \<Rightarrow> int option"
  toLocaleString :: "int \<Rightarrow> string"

definition LocalTime :: "js_env \<Rightarrow> int \<Rightarrow> int" where
  "LocalTime env t = t + tza_utc env t"

definition UTC_time :: "js_env \<Rightarrow> int \<Rightarrow> int" where
  "UTC_time env t = t - tza_local env t"

subsection \<open>\<^verbatim>\<open>toISOString\<close>\<close>

definition iso_year :: "int \<Rightarrow> string" where
  "iso_year y = (if 0 \<le> y \<and> y \<le> 9999 then pad_digits 4 (nat y)
     else (if y < 0 then ''-'' else ''+'') @ pad_digits 6 (nat \<bar>y\<bar>))"

definition toISOString :: "int \<Rightarrow> string" where
  "toISOString t =
     iso_year (YearFromDay (Day t)) @ ''-'' @ pad_digits 2 (nat (MonthFromDay (Day t) + 1)) @ ''-'' @
     pad_digits 2 (nat (DateFromDay (Day t))) @ ''T'' @
     pad_digits 2 (nat (HourFromTime t)) @ '':'' @ pad_digits 2 (nat (MinFromTime t)) @ '':'' @
     pad_digits 2 (nat (SecFromTime t)) @ ''.'' @ pad_digits 3 (nat (msFromTime t)) @ ''Z''"

subsection \<open>\<^verbatim>\<open>new Date(string)\<close>\<close>

text \<open>
  The date-time string format of the specification, in the forms this program
  meets: \<^verbatim>\<open>YYYY-MM-DD\<close> (or a signed year of six digits), alone or followed by
  \<^verbatim>\<open>THH:mm:ss\<close>, an optional \<^verbatim>\<open>.sss\<close> and an optional \<^verbatim>\<open>Z\<close> or \<^verbatim>\<open>+HH:mm\<close> / \<^verbatim>\<open>-HH:mm\<close>.
  A date alone is UTC; a date and time with no zone is local time.
\<close>

datatype zone = ZLocal | ZUTC | ZOffset int

record iso_fields =
  i_year :: int
  i_month :: nat
  i_day :: nat
  i_time :: "(nat \<times> nat \<times> nat \<times> nat) option"
  i_zone :: zone

fun two_digits :: "string \<Rightarrow> (nat \<times> string) option" where
  "two_digits (a # b # r) =
     (if is_digit a \<and> is_digit b then Some (digits_val [a, b], r) else None)"
| "two_digits _ = None"

fun three_digits :: "string \<Rightarrow> (nat \<times> string) option" where
  "three_digits (a # b # c # r) =
     (if is_digit a \<and> is_digit b \<and> is_digit c then Some (digits_val [a, b, c], r) else None)"
| "three_digits _ = None"

fun four_digits :: "string \<Rightarrow> (nat \<times> string) option" where
  "four_digits (a # b # c # d # r) =
     (if is_digit a \<and> is_digit b \<and> is_digit c \<and> is_digit d
      then Some (digits_val [a, b, c, d], r) else None)"
| "four_digits _ = None"

fun expect :: "char \<Rightarrow> string \<Rightarrow> string option" where
  "expect c (x # r) = (if x = c then Some r else None)"
| "expect c [] = None"

definition iso_year_syntax :: "string \<Rightarrow> (int \<times> string) option" where
  "iso_year_syntax s = (case s of
       [] \<Rightarrow> None
     | c # r \<Rightarrow>
         (if c = CHR ''+'' \<or> c = CHR ''-'' then
            (case two_digits r of
               None \<Rightarrow> None
             | Some (hi, r1) \<Rightarrow> (case four_digits r1 of
                   None \<Rightarrow> None
                 | Some (lo, r2) \<Rightarrow>
                     (if c = CHR ''-'' \<and> hi = 0 \<and> lo = 0 then None
                      else Some ((if c = CHR ''-'' then - 1 else 1) * int (hi * 10000 + lo), r2))))
          else (case four_digits s of None \<Rightarrow> None | Some (y, r1) \<Rightarrow> Some (int y, r1))))"

definition iso_zone_syntax :: "string \<Rightarrow> zone option" where
  "iso_zone_syntax s = (case s of
       [] \<Rightarrow> Some ZLocal
     | c # r \<Rightarrow>
         (if c = CHR ''Z'' then (if r = [] then Some ZUTC else None)
          else if c = CHR ''+'' \<or> c = CHR ''-'' then
            (case two_digits r of
               None \<Rightarrow> None
             | Some (hh, r1) \<Rightarrow> (case expect CHR '':'' r1 of
                   None \<Rightarrow> None
                 | Some r2 \<Rightarrow> (case two_digits r2 of
                       None \<Rightarrow> None
                     | Some (mm, r3) \<Rightarrow>
                         (if r3 = [] \<and> hh \<le> 23 \<and> mm \<le> 59
                          then Some (ZOffset ((if c = CHR ''-'' then - 1 else 1) * int (hh * 60 + mm)))
                          else None))))
          else None))"

definition iso_time_syntax :: "string \<Rightarrow> ((nat \<times> nat \<times> nat \<times> nat) \<times> string) option" where
  "iso_time_syntax s = (case two_digits s of
       None \<Rightarrow> None
     | Some (h, r1) \<Rightarrow> (case expect CHR '':'' r1 of
           None \<Rightarrow> None
         | Some r2 \<Rightarrow> (case two_digits r2 of
               None \<Rightarrow> None
             | Some (mi, r3) \<Rightarrow> (case expect CHR '':'' r3 of
                   None \<Rightarrow> None
                 | Some r4 \<Rightarrow> (case two_digits r4 of
                       None \<Rightarrow> None
                     | Some (sec, r5) \<Rightarrow> (case expect CHR ''.'' r5 of
                           None \<Rightarrow> Some ((h, mi, sec, 0), r5)
                         | Some r6 \<Rightarrow> (case three_digits r6 of
                               None \<Rightarrow> None
                             | Some (ms, r7) \<Rightarrow> Some ((h, mi, sec, ms), r7))))))))"

definition iso_syntax :: "string \<Rightarrow> iso_fields option" where
  "iso_syntax s = (case iso_year_syntax s of
       None \<Rightarrow> None
     | Some (y, r1) \<Rightarrow> (case expect CHR ''-'' r1 of
           None \<Rightarrow> None
         | Some r2 \<Rightarrow> (case two_digits r2 of
               None \<Rightarrow> None
             | Some (m, r3) \<Rightarrow> (case expect CHR ''-'' r3 of
                   None \<Rightarrow> None
                 | Some r4 \<Rightarrow> (case two_digits r4 of
                       None \<Rightarrow> None
                     | Some (d, r5) \<Rightarrow>
                         (if r5 = [] then
                            Some \<lparr>i_year = y, i_month = m, i_day = d, i_time = None, i_zone = ZUTC\<rparr>
                          else (case expect CHR ''T'' r5 of
                              None \<Rightarrow> None
                            | Some r6 \<Rightarrow> (case iso_time_syntax r6 of
                                  None \<Rightarrow> None
                                | Some (tm, r7) \<Rightarrow> (case iso_zone_syntax r7 of
                                      None \<Rightarrow> None
                                    | Some z \<Rightarrow>
                                        Some \<lparr>i_year = y, i_month = m, i_day = d,
                                          i_time = Some tm, i_zone = z\<rparr>)))))))))"

text \<open>The fields name a day of the calendar and a time of the day.\<close>

definition iso_valid :: "iso_fields \<Rightarrow> bool" where
  "iso_valid f =
     (1 \<le> i_month f \<and> i_month f \<le> 12 \<and> 1 \<le> i_day f \<and>
      int (i_day f) \<le> DaysInMonth (i_year f) (int (i_month f) - 1) \<and>
      (case i_time f of
         None \<Rightarrow> True
       | Some (h, mi, sec, ms) \<Rightarrow> h \<le> 23 \<and> mi \<le> 59 \<and> sec \<le> 59))"

definition iso_time_value :: "js_env \<Rightarrow> iso_fields \<Rightarrow> int option" where
  "iso_time_value env f =
     (let day = MakeDay (i_year f) (int (i_month f) - 1) (int (i_day f));
          tm = (case i_time f of
                  None \<Rightarrow> 0
                | Some (h, mi, sec, ms) \<Rightarrow> MakeTime (int h) (int mi) (int sec) (int ms));
          t = MakeDate day tm
      in TimeClip (case i_zone f of
           ZUTC \<Rightarrow> t
         | ZOffset off \<Rightarrow> t - off * 60000
         | ZLocal \<Rightarrow> UTC_time env t))"

text \<open>
  \<^verbatim>\<open>new Date(s)\<close> for a string \<open>s\<close>. On a string of the format whose fields are
  valid the result is the specification's; engines differ on the others (a day
  past the end of its month, an hour of 24) and on every other string, and the
  model hands those to the engine's parser of the environment.
\<close>

definition Date_parse :: "js_env \<Rightarrow> string \<Rightarrow> int option" where
  "Date_parse env s = (case iso_syntax s of
       None \<Rightarrow> engine_parse env s
     | Some f \<Rightarrow> (if iso_valid f then iso_time_value env f else engine_parse env s))"

text \<open>The local-time constructor \<^verbatim>\<open>new Date(year, month, day, hour, minute, second)\<close>.\<close>

definition Date_local :: "js_env \<Rightarrow> int \<Rightarrow> int \<Rightarrow> int \<Rightarrow> int \<Rightarrow> int \<Rightarrow> int \<Rightarrow> int option" where
  "Date_local env year month day hour minute second =
     (let yr = (if 0 \<le> year \<and> year \<le> 99 then 1900 + year else year)
      in TimeClip (UTC_time env (MakeDate (MakeDay yr month day) (MakeTime hour minute second 0))))"

text \<open>\<^verbatim>\<open>d.setDate(d.getDate() + n)\<close>, \<^verbatim>\<open>d.setHours(d.getHours() + n)\<close> and
  \<^verbatim>\<open>d.setMinutes(d.getMinutes() + n)\<close> on a valid date: the fields are those of local
  time.\<close>

definition Date_addDays :: "js_env \<Rightarrow> int \<Rightarrow> int \<Rightarrow> int option" where
  "Date_addDays env u n =
     (let t = LocalTime env u
      in TimeClip (UTC_time env (MakeDate
           (MakeDay (YearFromDay (Day t)) (MonthFromDay (Day t)) (DateFromDay (Day t) + n))
           (TimeWithinDay t))))"

definition Date_addHours :: "js_env \<Rightarrow> int \<Rightarrow> int \<Rightarrow> int option" where
  "Date_addHours env u n =
     (let t = LocalTime env u
      in TimeClip (UTC_time env (MakeDate (Day t)
           (MakeTime (HourFromTime t + n) (MinFromTime t) (SecFromTime t) (msFromTime t)))))"

definition Date_addMinutes :: "js_env \<Rightarrow> int \<Rightarrow> int \<Rightarrow> int option" where
  "Date_addMinutes env u n =
     (let t = LocalTime env u
      in TimeClip (UTC_time env (MakeDate (Day t)
           (MakeTime (HourFromTime t) (MinFromTime t + n) (SecFromTime t) (msFromTime t)))))"

text \<open>An environment for examples: local time is UTC, and the engine's own parser
  accepts nothing.\<close>

definition utc_env :: js_env where
  "utc_env = \<lparr>tza_utc = (\<lambda>t. 0), tza_local = (\<lambda>t. 0), zone_name = ''UTC'',
     engine_parse = (\<lambda>s. None), toLocaleString = toISOString\<rparr>"

section \<open>The date-time normalizer\<close>

subsection \<open>Strings and thrown values\<close>

text \<open>
  Strings are lists of bytes. \<^verbatim>\<open>trim\<close> and the class \<^verbatim>\<open>\s\<close> of regular expressions
  are taken on the white space of ASCII (the Unicode spaces beyond it are not
  modelled); \<^verbatim>\<open>\d\<close> is an ASCII digit and the flag \<^verbatim>\<open>i\<close> folds the case of
  ASCII letters, as in the language.
\<close>

definition is_space :: "char \<Rightarrow> bool" where
  "is_space c = (c = CHR '' '' \<or> (9 \<le> (of_char c :: nat) \<and> (of_char c :: nat) \<le> 13))"

definition trim :: "string \<Rightarrow> string" where
  "trim s = rev (dropWhile is_space (rev (dropWhile is_space s)))"

definition lower_char :: "char \<Rightarrow> char" where
  "lower_char c = (if 65 \<le> (of_char c :: nat) \<and> (of_char c :: nat) \<le> 90
     then char_of ((of_char c :: nat) + 32) else c)"

definition upper_char :: "char \<Rightarrow> char" where
  "upper_char c = (if 97 \<le> (of_char c :: nat) \<and> (of_char c :: nat) \<le> 122
     then char_of ((of_char c :: nat) - 32) else c)"

definition toLowerCase :: "string \<Rightarrow> string" where
  "toLowerCase s = map lower_char s"

definition toUpperCase :: "string \<Rightarrow> string" where
  "toUpperCase s = map upper_char s"

text \<open>\<^verbatim>\<open>s.includes(t)\<close>.\<close>

fun js_includes :: "string \<Rightarrow> string \<Rightarrow> bool" where
  "js_includes [] t = (t = [])"
| "js_includes (c # cs) t = (take (length t) (c # cs) = t \<or> js_includes cs t)"

text \<open>
  A value that is thrown: an \<^verbatim>\<open>Error\<close> made by the program, with its message; a
  \<^verbatim>\<open>TypeError\<close> or \<^verbatim>\<open>RangeError\<close> of the language; or an error object that comes
  from outside the program (the calendar client, the process library), of which
  the model keeps the properties that the program reads.
\<close>

datatype code_val = CNum int | CStr string

record error_details =
  ed_message :: "string option"
  ed_error_description :: "string option"
  ed_code :: "code_val option"
  ed_status :: "code_val option"
  ed_errors :: "(string option \<times> string option) list"

record api_error =
  ae_constructor :: string
  ae_name :: string
  ae_message :: string
  ae_code :: "code_val option"
  ae_status :: "code_val option"
  ae_errors :: "(string option \<times> string option) list"
  ae_cause :: "error_details option"
  ae_has_response :: bool
  ae_response_data_error :: "error_details option"
  ae_response_data :: "error_details option"

datatype thrown = Error string | TypeError string | RangeError string | External api_error

text \<open>\<^verbatim>\<open>error.message\<close>, for the \<^verbatim>\<open>error instanceof Error ? error.message : String(error)\<close>
  of the handlers: every value that is thrown here is an instance of \<^verbatim>\<open>Error\<close>.\<close>

definition message_of :: "thrown \<Rightarrow> string" where
  "message_of e = (case e of Error m \<Rightarrow> m | TypeError m \<Rightarrow> m | RangeError m \<Rightarrow> m
     | External a \<Rightarrow> ae_message a)"

text \<open>\<^verbatim>\<open>String(error)\<close> of an error object: its name, a colon and its message.\<close>

definition name_and_message :: "string \<Rightarrow> string \<Rightarrow> string" where
  "name_and_message n m = (if m = [] then n else if n = [] then m else n @ '': '' @ m)"

definition String_of_thrown :: "thrown \<Rightarrow> string" where
  "String_of_thrown e = (case e of
       Error m \<Rightarrow> name_and_message ''Error'' m
     | TypeError m \<Rightarrow> name_and_message ''TypeError'' m
     | RangeError m \<Rightarrow> name_and_message ''RangeError'' m
     | External a \<Rightarrow> name_and_message (ae_name a) (ae_message a))"

text \<open>Sequencing of steps that may throw.\<close>

definition and_then :: "thrown + 'a \<Rightarrow> ('a \<Rightarrow> thrown + 'b) \<Rightarrow> thrown + 'b" where
  "and_then r f = (case r of Inl e \<Rightarrow> Inl e | Inr x \<Rightarrow> f x)"

subsection \<open>Values of the language\<close>

text \<open>A value read from the input of a tool call is a \<open>json option\<close>: \<open>None\<close> is
  \<^verbatim>\<open>undefined\<close>.\<close>

definition js_truthy :: "json option \<Rightarrow> bool" where
  "js_truthy v = (case v of
       None \<Rightarrow> False
     | Some JNull \<Rightarrow> False
     | Some (JBool b) \<Rightarrow> b
     | Some (JNumber (NInt n)) \<Rightarrow> n \<noteq> 0
     | Some (JNumber (NFrac l m k)) \<Rightarrow> True
     | Some (JString s) \<Rightarrow> s \<noteq> []
     | Some (JArray xs) \<Rightarrow> True
     | Some (JObject ms) \<Rightarrow> True)"

definition js_typeof :: "json option \<Rightarrow> string" where
  "js_typeof v = (case v of
       None \<Rightarrow> ''undefined''
     | Some JNull \<Rightarrow> ''object''
     | Some (JBool b) \<Rightarrow> ''boolean''
     | Some (JNumber n) \<Rightarrow> ''number''
     | Some (JString s) \<Rightarrow> ''string''
     | Some (JArray xs) \<Rightarrow> ''object''
     | Some (JObject ms) \<Rightarrow> ''object'')"

text \<open>
  \<^verbatim>\<open>String(v)\<close>, which a template literal applies. An array joins its elements
  with commas, \<^verbatim>\<open>null\<close> as the empty string. An object of \<^verbatim>\<open>JSON.parse\<close> is
  \<^verbatim>\<open>[object Object]\<close>, unless it has a member \<^verbatim>\<open>toString\<close>, which hides the method of
  the prototype and is not a function: the conversion throws a \<^verbatim>\<open>TypeError\<close>
  then (\<open>None\<close>). An integer is in decimal notation (the exponent notation of
  the language from \<open>10 ^ 21\<close> on is not modelled), another number is the text of
  its literal.
\<close>

fun js_String :: "json \<Rightarrow> string option"
  and js_join :: "json list \<Rightarrow> string option" where
  "js_String JNull = Some ''null''"
| "js_String (JBool b) = Some (if b then ''true'' else ''false'')"
| "js_String (JNumber (NInt n)) = Some (string_of_int n)"
| "js_String (JNumber (NFrac l m k)) = Some l"
| "js_String (JString s) = Some s"
| "js_String (JArray xs) = js_join xs"
| "js_String (JObject ms) = (if ''toString'' \<in> set (map fst ms) then None else Some ''[object Object]'')"
| "js_join [] = Some []"
| "js_join (x # xs) =
     (case (if x = JNull then Some [] else js_String x) of
        None \<Rightarrow> None
      | Some s \<Rightarrow> (if xs = [] then Some s
          else (case js_join xs of None \<Rightarrow> None | Some r \<Rightarrow> Some (s @ '','' @ r))))"

definition String_of :: "json option \<Rightarrow> thrown + string" where
  "String_of v = (case v of
       None \<Rightarrow> Inr ''undefined''
     | Some x \<Rightarrow> (case js_String x of
           None \<Rightarrow> Inl (TypeError ''Cannot convert object to primitive value'')
         | Some s \<Rightarrow> Inr s))"

text \<open>A property of a value: the last member of that name in an object, and
  \<^verbatim>\<open>undefined\<close> on every other value that is not \<^verbatim>\<open>null\<close> (none of the names that
  the program reads is a property of a string, a number or an array).\<close>

definition member :: "(string \<times> json) list \<Rightarrow> string \<Rightarrow> json option" where
  "member ms k = map_of (rev ms) k"

definition js_get :: "json \<Rightarrow> string \<Rightarrow> json option" where
  "js_get v k = (case v of JObject ms \<Rightarrow> member ms k | _ \<Rightarrow> None)"

subsection \<open>The regular expressions of \<^verbatim>\<open>parseStringDate\<close>\<close>

text \<open>\<^verbatim>\<open>/^\d{4}-\d{2}-\d{2}T\d{2}:\d{2}:\d{2}(\.\d{3})?([+-]\d{2}:\d{2}|Z)?$/\<close>\<close>

definition isoRegex_zone :: "string \<Rightarrow> bool" where
  "isoRegex_zone s = (case s of
       [] \<Rightarrow> True
     | c # r \<Rightarrow>
         (if c = CHR ''Z'' then r = []
          else (c = CHR ''+'' \<or> c = CHR ''-'') \<and>
            (case two_digits r of
               None \<Rightarrow> False
             | Some (hh, r1) \<Rightarrow> (case expect CHR '':'' r1 of
                   None \<Rightarrow> False
                 | Some r2 \<Rightarrow> (case two_digits r2 of None \<Rightarrow> False | Some (mm, r3) \<Rightarrow> r3 = [])))))"

definition isoRegex_fraction :: "string \<Rightarrow> bool" where
  "isoRegex_fraction s = (case expect CHR ''.'' s of
       None \<Rightarrow> isoRegex_zone s
     | Some r \<Rightarrow> (case three_digits r of None \<Rightarrow> False | Some (ms, r1) \<Rightarrow> isoRegex_zone r1))"

definition isoRegex :: "string \<Rightarrow> bool" where
  "isoRegex s = (case four_digits s of
       None \<Rightarrow> False
     | Some (y, r1) \<Rightarrow> (case expect CHR ''-'' r1 of
       None \<Rightarrow> False
     | Some r2 \<Rightarrow> (case two_digits r2 of
       None \<Rightarrow> False
     | Some (m, r3) \<Rightarrow> (case expect CHR ''-'' r3 of
       None \<Rightarrow> False
     | Some r4 \<Rightarrow> (case two_digits r4 of
       None \<Rightarrow> False
     | Some (d, r5) \<Rightarrow> (case expect CHR ''T'' r5 of
       None \<Rightarrow> False
     | Some r6 \<Rightarrow> (case two_digits r6 of
       None \<Rightarrow> False
     | Some (h, r7) \<Rightarrow> (case expect CHR '':'' r7 of
       None \<Rightarrow> False
     | Some r8 \<Rightarrow> (case two_digits r8 of
       None \<Rightarrow> False
     | Some (mi, r9) \<Rightarrow> (case expect CHR '':'' r9 of
       None \<Rightarrow> False
     | Some r10 \<Rightarrow> (case two_digits r10 of
       None \<Rightarrow> False
     | Some (sec, r11) \<Rightarrow> isoRegex_fraction r11)))))))))))"

text \<open>\<^verbatim>\<open>/^in\s+(\d+)\s+(minute|minutes|hour|hours|day|days|week|weeks)$/i\<close>: the amount and
  the unit in lower case.\<close>

definition relativeMatch :: "string \<Rightarrow> (nat \<times> string) option" where
  "relativeMatch s =
     (if toLowerCase (take 2 s) \<noteq> ''in'' then None
      else let r1 = drop 2 s; r2 = dropWhile is_space r1;
               ds = takeWhile is_digit r2; r3 = dropWhile is_digit r2;
               u = toLowerCase (dropWhile is_space r3)
           in if r2 = r1 \<or> ds = [] \<or> dropWhile is_space r3 = r3 then None
              else if u \<in> set [''minute'', ''minutes'', ''hour'', ''hours'', ''day'', ''days'', ''week'', ''weeks'']
                then Some (digits_val ds, u) else None)"

text \<open>
  \<^verbatim>\<open>/^(\d{1,2})[\/\-](\d{1,2})[\/\-](\d{4})(?:\s+(\d{1,2}):(\d{2})(?::(\d{2}))?(?:\s*(AM|PM))?)?$/i\<close>.
  One or two digits and a separator:
\<close>

definition short_number :: "string \<Rightarrow> (nat \<times> string) option" where
  "short_number s =
     (let ds = takeWhile is_digit s
      in if 1 \<le> length ds \<and> length ds \<le> 2 then Some (digits_val ds, dropWhile is_digit s) else None)"

definition separator :: "string \<Rightarrow> string option" where
  "separator s = (case s of c # r \<Rightarrow> (if c = CHR ''/'' \<or> c = CHR ''-'' then Some r else None) | [] \<Rightarrow> None)"

text \<open>The optional time: hour, minute, the second if there is one, and \<^verbatim>\<open>AM\<close> or \<^verbatim>\<open>PM\<close> as
  written if there is one.\<close>

definition usTimeMatch :: "string \<Rightarrow> (nat \<times> nat \<times> nat option \<times> string option) option" where
  "usTimeMatch s =
     (let r1 = dropWhile is_space s
      in if r1 = s then None
         else (case short_number r1 of
           None \<Rightarrow> None
         | Some (h, r2) \<Rightarrow> (case expect CHR '':'' r2 of
           None \<Rightarrow> None
         | Some r3 \<Rightarrow> (case two_digits r3 of
           None \<Rightarrow> None
         | Some (mi, r4) \<Rightarrow>
             (case (case expect CHR '':'' r4 of
                      None \<Rightarrow> Some (None, r4)
                    | Some r5 \<Rightarrow> (case two_digits r5 of
                          None \<Rightarrow> None
                        | Some (sec, r6) \<Rightarrow> Some (Some sec, r6))) of
                None \<Rightarrow> None
              | Some (sec, r7) \<Rightarrow>
                  (if r7 = [] then Some (h, mi, sec, None)
                   else let w = dropWhile is_space r7
                        in if toUpperCase w = ''AM'' \<or> toUpperCase w = ''PM''
                           then Some (h, mi, sec, Some w) else None))))))"

definition usDateMatch ::
  "string \<Rightarrow> (nat \<times> nat \<times> nat \<times> (nat \<times> nat \<times> nat option \<times> string option) option) option" where
  "usDateMatch s = (case short_number s of
       None \<Rightarrow> None
     | Some (m, r1) \<Rightarrow> (case separator r1 of
       None \<Rightarrow> None
     | Some r2 \<Rightarrow> (case short_number r2 of
       None \<Rightarrow> None
     | Some (d, r3) \<Rightarrow> (case separator r3 of
       None \<Rightarrow> None
     | Some r4 \<Rightarrow>
         (if length (takeWhile is_digit r4) \<noteq> 4 then None
          else let y = digits_val (takeWhile is_digit r4); r5 = dropWhile is_digit r4
               in if r5 = [] then Some (m, d, y, None)
                  else (case usTimeMatch r5 of None \<Rightarrow> None | Some t \<Rightarrow> Some (m, d, y, Some t)))))))"

text \<open>\<^verbatim>\<open>/^(\d{4})-(\d{2})-(\d{2})$/\<close>\<close>

definition isoDateMatch :: "string \<Rightarrow> bool" where
  "isoDateMatch s = (case four_digits s of
       None \<Rightarrow> False
     | Some (y, r1) \<Rightarrow> (case expect CHR ''-'' r1 of
       None \<Rightarrow> False
     | Some r2 \<Rightarrow> (case two_digits r2 of
       None \<Rightarrow> False
     | Some (m, r3) \<Rightarrow> (case expect CHR ''-'' r3 of
       None \<Rightarrow> False
     | Some r4 \<Rightarrow> (case two_digits r4 of None \<Rightarrow> False | Some (d, r5) \<Rightarrow> r5 = [])))))"

subsection \<open>\<^verbatim>\<open>parseStringDate\<close>\<close>

text \<open>The hour after the \<^verbatim>\<open>AM\<close>/\<^verbatim>\<open>PM\<close> adjustment.\<close>

definition adjust_hour :: "nat \<Rightarrow> string option \<Rightarrow> nat" where
  "adjust_hour hour ampm = (case ampm of
       None \<Rightarrow> hour
     | Some w \<Rightarrow>
         (if toUpperCase w = ''PM'' \<and> hour \<noteq> 12 then hour + 12
          else if toUpperCase w = ''AM'' \<and> hour = 12 then 0
          else hour))"

text \<open>
  The result is the time value of the \<^verbatim>\<open>Date\<close> that is returned (\<open>None\<close> for an
  invalid date), or the \<^verbatim>\<open>Error\<close> that is thrown. \<open>now\<close> is what \<^verbatim>\<open>new Date()\<close> reads
  from the clock during this call.
\<close>

definition parseStringDate :: "js_env \<Rightarrow> int \<Rightarrow> string \<Rightarrow> thrown + int option" where
  "parseStringDate env now dateStr =
     (let trimmed = trim dateStr
      in if isoRegex trimmed then Inr (Date_parse env trimmed)
         else if toLowerCase trimmed = ''today'' then Inr (Some now)
         else if toLowerCase trimmed = ''tomorrow'' then Inr (Date_addDays env now 1)
         else if toLowerCase trimmed = ''yesterday'' then Inr (Date_addDays env now (- 1))
         else (case relativeMatch trimmed of
           Some (amount, unit) \<Rightarrow>
             (if unit = ''minute'' \<or> unit = ''minutes'' then Inr (Date_addMinutes env now (int amount))
              else if unit = ''hour'' \<or> unit = ''hours'' then Inr (Date_addHours env now (int amount))
              else if unit = ''day'' \<or> unit = ''days'' then Inr (Date_addDays env now (int amount))
              else Inr (Date_addDays env now (int amount * 7)))
         | None \<Rightarrow> (case usDateMatch trimmed of
           Some (m, d, y, t) \<Rightarrow>
             (let month = int m - 1; day = int d; year = int y;
                  hour = (case t of None \<Rightarrow> 0 | Some (h, mi, sec, ampm) \<Rightarrow> adjust_hour h ampm);
                  minute = (case t of None \<Rightarrow> 0 | Some (h, mi, sec, ampm) \<Rightarrow> mi);
                  second = (case t of None \<Rightarrow> 0 | Some (h, mi, None, ampm) \<Rightarrow> 0
                            | Some (h, mi, Some sec, ampm) \<Rightarrow> sec)
              in Inr (Date_local env year month day (int hour) (int minute) (int second)))
         | None \<Rightarrow>
             (if isoDateMatch trimmed then Inr (Date_parse env (trimmed @ ''T00:00:00''))
              else (case Date_parse env trimmed of
                  Some t \<Rightarrow> Inr (Some t)
                | None \<Rightarrow> Inl (Error (''Unable to parse date format: '' @ [CHR 0x22] @ dateStr @ [CHR 0x22])))))))"

subsection \<open>\<^verbatim>\<open>formatDateTimeForGoogle\<close> and \<^verbatim>\<open>normalizeDateTime\<close>\<close>

record GoogleCalendarDateTime =
  dateTime :: string
  timeZone :: string

text \<open>\<^verbatim>\<open>new Date(n)\<close> for a number: the integral part, clipped.\<close>

definition Date_of_number :: "jsnum \<Rightarrow> int option" where
  "Date_of_number n = (case n of
       NInt i \<Rightarrow> TimeClip i
     | NFrac l m k \<Rightarrow> TimeClip (if 0 \<le> m then m div 10 ^ k else - ((- m) div 10 ^ k)))"

text \<open>The body of the \<^verbatim>\<open>try\<close> block. The input is never a \<^verbatim>\<open>Date\<close> object: it comes from
  \<^verbatim>\<open>JSON.parse\<close>.\<close>

definition format_body :: "js_env \<Rightarrow> int \<Rightarrow> json option \<Rightarrow> string option \<Rightarrow> thrown + GoogleCalendarDateTime" where
  "format_body env now input tz =
     and_then
       (case input of
          Some (JNumber n) \<Rightarrow> Inr (Date_of_number n)
        | Some (JString s) \<Rightarrow> parseStringDate env now s
        | _ \<Rightarrow> Inl (Error (''Unsupported date type: '' @ js_typeof input)))
       (\<lambda>date. case date of
          None \<Rightarrow> and_then (String_of input) (\<lambda>s. Inl (Error (''Invalid date: '' @ s)))
        | Some t \<Rightarrow> Inr \<lparr>dateTime = toISOString t,
            timeZone = (case tz of None \<Rightarrow> zone_name env | Some z \<Rightarrow> (if z = [] then zone_name env else z))\<rparr>)"

definition formatDateTimeForGoogle ::
  "js_env \<Rightarrow> int \<Rightarrow> json option \<Rightarrow> string option \<Rightarrow> thrown + GoogleCalendarDateTime" where
  "formatDateTimeForGoogle env now input tz =
     (if \<not> js_truthy input then Inl (Error ''Date input is required'')
      else (case format_body env now input tz of
          Inr r \<Rightarrow> Inr r
        | Inl e \<Rightarrow> and_then (String_of input) (\<lambda>s.
            Inl (Error (''Failed to format date '' @ [CHR 0x22] @ s @ [CHR 0x22] @ '': '' @ message_of e)))))"

definition normalizeDateTime :: "js_env \<Rightarrow> int \<Rightarrow> json option \<Rightarrow> string \<Rightarrow> thrown + string" where
  "normalizeDateTime env now input paramName =
     (case formatDateTimeForGoogle env now input None of
        Inr formatted \<Rightarrow> Inr (dateTime formatted)
      | Inl e \<Rightarrow> Inl (Error (paramName @ '': '' @ message_of e)))"

definition createGoogleDateTime :: "js_env \<Rightarrow> int \<Rightarrow> json option \<Rightarrow> thrown + GoogleCalendarDateTime" where
  "createGoogleDateTime env now input = formatDateTimeForGoogle env now input None"

definition isValidGoogleDateTimeFormat :: "js_env \<Rightarrow> string \<Rightarrow> bool" where
  "isValidGoogleDateTimeFormat env s = (isoRegex s \<and> Date_parse env s \<noteq> None)"

section \<open>The calendar client\<close>

text \<open>
  The functions of \<^verbatim>\<open>google-tools.ts\<close> that the tools call. The calendar service is
  outside the program: its answers are functions of the environment, and every
  request that is sent to it is recorded as an effect, with the parameters that
  the program built. An event of the service is kept with the four fields that
  the program reads and a label for the rest.
\<close>

type_synonym obj = "(string \<times> json) list"

record calendar_event =
  ev_label :: string
  ev_start_dateTime :: "string option"
  ev_start_date :: "string option"
  ev_end_dateTime :: "string option"
  ev_end_date :: "string option"

record calendar_entry =
  ce_summary :: "string option"
  ce_id :: "string option"
  ce_description :: "string option"

text \<open>The event that \<^verbatim>\<open>create_event\<close>, \<^verbatim>\<open>create_quick_event\<close> and \<^verbatim>\<open>update_event\<close> send.\<close>

record event_body =
  eb_summary :: "json option"
  eb_description :: "json option"
  eb_location :: "json option"
  eb_start :: "GoogleCalendarDateTime option"
  eb_end :: "GoogleCalendarDateTime option"
  eb_attendees :: "json list option"

datatype effect =
    Spawn "json option"
  | EventsList obj
  | EventsInsert "json option" event_body
  | EventsUpdate json event_body
  | EventsDelete "json option" json
  | CalendarListList

record tool_env =
  js :: js_env
  clock :: "nat \<Rightarrow> int"
  events_list :: "obj \<Rightarrow> thrown + calendar_event list"
  events_insert :: "json option \<Rightarrow> event_body \<Rightarrow> thrown + calendar_event"
  events_update :: "json \<Rightarrow> event_body \<Rightarrow> thrown + calendar_event"
  events_delete :: "json option \<Rightarrow> json \<Rightarrow> thrown + unit"
  calendarList_list :: "thrown + calendar_entry list"
  run_bash :: "json option \<Rightarrow> thrown + string"
  formatCalendarEvent :: "calendar_event \<Rightarrow> string"

text \<open>Comparisons of two dates: with an invalid date every comparison is false.\<close>

definition date_lt :: "int option \<Rightarrow> int option \<Rightarrow> bool" where
  "date_lt a b = (case (a, b) of (Some x, Some y) \<Rightarrow> x < y | _ \<Rightarrow> False)"

definition date_ge :: "int option \<Rightarrow> int option \<Rightarrow> bool" where
  "date_ge a b = (case (a, b) of (Some x, Some y) \<Rightarrow> x \<ge> y | _ \<Rightarrow> False)"

text \<open>\<^verbatim>\<open>a || b\<close> on optional strings: the empty string is falsy.\<close>

definition first_truthy :: "string option \<Rightarrow> string option \<Rightarrow> string option" where
  "first_truthy a b = (case a of Some s \<Rightarrow> (if s = [] then b else Some s) | None \<Rightarrow> b)"

definition truthy_string :: "string option \<Rightarrow> bool" where
  "truthy_string a = (case a of Some s \<Rightarrow> s \<noteq> [] | None \<Rightarrow> False)"

text \<open>Writing a property of an object, and the spread \<^verbatim>\<open>{...a, ...b}\<close>: a property
  keeps its place and takes the last value.\<close>

fun set_prop :: "obj \<Rightarrow> string \<Rightarrow> json \<Rightarrow> obj" where
  "set_prop [] k v = [(k, v)]"
| "set_prop ((k', v') # r) k v = (if k' = k then (k, v) # r else (k', v') # set_prop r k v)"

definition assign :: "obj \<Rightarrow> obj \<Rightarrow> obj" where
  "assign a b = foldl (\<lambda>acc kv. set_prop acc (fst kv) (snd kv)) a b"

text \<open>\<^verbatim>\<open>getEventsInTimeRange\<close>: the defaults, then the options over them; a failure of
  the service is thrown again as it is.\<close>

definition getEventsInTimeRange :: "tool_env \<Rightarrow> int \<Rightarrow> obj \<Rightarrow> (thrown + calendar_event list) \<times> effect list" where
  "getEventsInTimeRange env now options =
     (let params = assign [(''calendarId'', JString ''primary''), (''maxResults'', JNumber (NInt 10)),
                    (''timeMin'', JString (toISOString now)), (''singleEvents'', JBool True),
                    (''orderBy'', JString ''startTime'')] options
      in (events_list env params, [EventsList params]))"

definition createEvent :: "tool_env \<Rightarrow> event_body \<Rightarrow> json option \<Rightarrow> (thrown + calendar_event) \<times> effect list" where
  "createEvent env event calendarId =
     ((case events_insert env calendarId event of
         Inr created \<Rightarrow> Inr created
       | Inl e \<Rightarrow> Inl (Error (''Failed to create event: '' @ String_of_thrown e))),
      [EventsInsert calendarId event])"

definition updateEvent :: "tool_env \<Rightarrow> json \<Rightarrow> event_body \<Rightarrow> (thrown + calendar_event) \<times> effect list" where
  "updateEvent env eventId event =
     ((case events_update env eventId event of
         Inr updated \<Rightarrow> Inr updated
       | Inl e \<Rightarrow> Inl (Error (''Failed to update event: '' @ String_of_thrown e))),
      [EventsUpdate eventId event])"

definition deleteEvent :: "tool_env \<Rightarrow> json \<Rightarrow> json option \<Rightarrow> (thrown + unit) \<times> effect list" where
  "deleteEvent env eventId calendarId =
     ((case events_delete env calendarId eventId of
         Inr u \<Rightarrow> Inr u
       | Inl e \<Rightarrow> Inl (Error (''Failed to delete event: '' @ String_of_thrown e))),
      [EventsDelete calendarId eventId])"

definition getCalendars :: "tool_env \<Rightarrow> (thrown + calendar_entry list) \<times> effect list" where
  "getCalendars env =
     ((case calendarList_list env of
         Inr items \<Rightarrow> Inr items
       | Inl e \<Rightarrow> Inl (Error (''Failed to fetch calendars: '' @ String_of_thrown e))),
      [CalendarListList])"

subsection \<open>\<^verbatim>\<open>checkForConflicts\<close>\<close>

text \<open>The test of the \<^verbatim>\<open>filter\<close>: an event with a start and an end, read as dates,
  against the window.\<close>

definition conflicts_with :: "js_env \<Rightarrow> string \<Rightarrow> string \<Rightarrow> calendar_event \<Rightarrow> bool" where
  "conflicts_with env startTime endTime event =
     (case (first_truthy (ev_start_dateTime event) (ev_start_date event),
            first_truthy (ev_end_dateTime event) (ev_end_date event)) of
        (Some eventStart, Some eventEnd) \<Rightarrow>
          date_lt (Date_parse env startTime) (Date_parse env eventEnd) \<and>
          date_lt (Date_parse env eventStart) (Date_parse env endTime)
      | _ \<Rightarrow> False)"

text \<open>The parameter \<^verbatim>\<open>calendarId\<close> has the default \<^verbatim>\<open>'primary'\<close>, which stands for
  \<^verbatim>\<open>undefined\<close> only.\<close>

definition checkForConflicts ::
  "tool_env \<Rightarrow> int \<Rightarrow> string \<Rightarrow> string \<Rightarrow> json option \<Rightarrow> (thrown + calendar_event list) \<times> effect list" where
  "checkForConflicts env now startTime endTime calendarId =
     (case getEventsInTimeRange env now
             [(''timeMin'', JString startTime), (''timeMax'', JString endTime),
              (''calendarId'', (case calendarId of None \<Rightarrow> JString ''primary'' | Some c \<Rightarrow> c)),
              (''maxResults'', JNumber (NInt 100))] of
        (Inl e, eff) \<Rightarrow> (Inl e, eff)
      | (Inr conflicts, eff) \<Rightarrow> (Inr (filter (conflicts_with (js env) startTime endTime) conflicts), eff))"

subsection \<open>\<^verbatim>\<open>createQuickEvent\<close>\<close>

definition Date_toISOString :: "int option \<Rightarrow> thrown + string" where
  "Date_toISOString d = (case d of None \<Rightarrow> Inl (RangeError ''Invalid time value'') | Some t \<Rightarrow> Inr (toISOString t))"

definition createQuickEvent ::
  "tool_env \<Rightarrow> json option \<Rightarrow> string \<Rightarrow> int \<Rightarrow> json option \<Rightarrow> json option \<Rightarrow> json option \<Rightarrow> json list option
     \<Rightarrow> (thrown + calendar_event) \<times> effect list" where
  "createQuickEvent env title startDateTime durationMinutes description location calendarId attendees =
     (let startDate = Date_parse (js env) startDateTime;
          endDate = (case startDate of None \<Rightarrow> None | Some t \<Rightarrow> TimeClip (t + durationMinutes * 60000))
      in case Date_toISOString startDate of
           Inl e \<Rightarrow> (Inl e, [])
         | Inr s \<Rightarrow> (case Date_toISOString endDate of
               Inl e \<Rightarrow> (Inl e, [])
             | Inr e \<Rightarrow> createEvent env
                 \<lparr>eb_summary = title, eb_description = description, eb_location = location,
                  eb_start = Some \<lparr>dateTime = s, timeZone = zone_name (js env)\<rparr>,
                  eb_end = Some \<lparr>dateTime = e, timeZone = zone_name (js env)\<rparr>,
                  eb_attendees = attendees\<rparr> calendarId))"

subsection \<open>\<^verbatim>\<open>findFreeTimeSlots\<close>\<close>

text \<open>
  The busy slots: the events with both \<^verbatim>\<open>dateTime\<close>s, read as dates, in the order of
  their starts. The comparison function is \<open>a.start - b.start\<close>; the sort of the
  language is stable, and the model inserts each slot before the first one that
  does not start earlier. (When a start is an invalid date the comparison
  function is inconsistent and the order is the engine's.)
\<close>

definition starts_no_later :: "int option \<times> int option \<Rightarrow> int option \<times> int option \<Rightarrow> bool" where
  "starts_no_later a b = (case (fst a, fst b) of (Some x, Some y) \<Rightarrow> x \<le> y | _ \<Rightarrow> True)"

fun insert_slot :: "int option \<times> int option \<Rightarrow> (int option \<times> int option) list \<Rightarrow> (int option \<times> int option) list" where
  "insert_slot a [] = [a]"
| "insert_slot a (b # bs) = (if starts_no_later a b then a # b # bs else b # insert_slot a bs)"

definition sort_slots :: "(int option \<times> int option) list \<Rightarrow> (int option \<times> int option) list" where
  "sort_slots xs = foldr insert_slot xs []"

definition busySlots :: "js_env \<Rightarrow> calendar_event list \<Rightarrow> (int option \<times> int option) list" where
  "busySlots env events =
     sort_slots
       (map (\<lambda>ev. (Date_parse env (or_empty (ev_start_dateTime ev)), Date_parse env (or_empty (ev_end_dateTime ev))))
         (filter (\<lambda>ev. truthy_string (ev_start_dateTime ev) \<and> truthy_string (ev_end_dateTime ev)) events))"

text \<open>\<^verbatim>\<open>Math.min\<close> and \<^verbatim>\<open>Math.max\<close> of two time values: an invalid one makes the result
  invalid.\<close>

definition date_min :: "int option \<Rightarrow> int option \<Rightarrow> int option" where
  "date_min a b = (case (a, b) of (Some x, Some y) \<Rightarrow> Some (min x y) | _ \<Rightarrow> None)"

definition date_max :: "int option \<Rightarrow> int option \<Rightarrow> int option" where
  "date_max a b = (case (a, b) of (Some x, Some y) \<Rightarrow> Some (max x y) | _ \<Rightarrow> None)"

text \<open>\<^verbatim>\<open>if (b.getTime() - a.getTime() >= slotDuration) freeSlots.push({start: a, end: b})\<close>.
  The model keeps the two instants of a slot; \<open>findFreeTimeSlots\<close> renders them
  with \<^verbatim>\<open>toISOString\<close>, which the source does at the push.\<close>

definition push_if_long :: "int \<Rightarrow> int option \<Rightarrow> int option \<Rightarrow> (int \<times> int) list \<Rightarrow> (int \<times> int) list" where
  "push_if_long slotDuration a b freeSlots = (case (a, b) of
       (Some x, Some y) \<Rightarrow> (if y - x \<ge> slotDuration then freeSlots @ [(x, y)] else freeSlots)
     | _ \<Rightarrow> freeSlots)"

text \<open>The \<^verbatim>\<open>for\<close> loop over the busy slots, on \<^verbatim>\<open>currentTime\<close> and \<^verbatim>\<open>freeSlots\<close>.\<close>

fun sweep :: "int \<Rightarrow> int option \<Rightarrow> (int option \<times> int option) list \<Rightarrow> int option \<Rightarrow> (int \<times> int) list
    \<Rightarrow> int option \<times> (int \<times> int) list" where
  "sweep slotDuration end [] currentTime freeSlots = (currentTime, freeSlots)"
| "sweep slotDuration end ((bs, be) # rest) currentTime freeSlots =
     sweep slotDuration end rest (date_max currentTime be)
       (if date_lt currentTime bs
        then push_if_long slotDuration currentTime (date_min bs end) freeSlots
        else freeSlots)"

definition free_intervals :: "int \<Rightarrow> int option \<Rightarrow> int option \<Rightarrow> (int option \<times> int option) list \<Rightarrow> (int \<times> int) list" where
  "free_intervals slotDuration start end busy =
     (case sweep slotDuration end busy start [] of
        (currentTime, freeSlots) \<Rightarrow>
          (if date_lt currentTime end then push_if_long slotDuration currentTime end freeSlots
           else freeSlots))"

text \<open>\<open>slotDurationMinutes\<close> is the number of minutes after the default of the
  parameter (60 for \<^verbatim>\<open>undefined\<close>).\<close>

definition findFreeTimeSlots ::
  "tool_env \<Rightarrow> int \<Rightarrow> string \<Rightarrow> string \<Rightarrow> int \<Rightarrow> json option \<Rightarrow> (thrown + (string \<times> string) list) \<times> effect list" where
  "findFreeTimeSlots env now startDate endDate slotDurationMinutes calendarId =
     (case getEventsInTimeRange env now
             [(''timeMin'', JString startDate), (''timeMax'', JString endDate),
              (''calendarId'', (case calendarId of None \<Rightarrow> JString ''primary'' | Some c \<Rightarrow> c)),
              (''maxResults'', JNumber (NInt 100))] of
        (Inl e, eff) \<Rightarrow> (Inl e, eff)
      | (Inr events, eff) \<Rightarrow>
          (Inr (map (\<lambda>(a, b). (toISOString a, toISOString b))
             (free_intervals (slotDurationMinutes * 60000)
                (Date_parse (js env) startDate) (Date_parse (js env) endDate)
                (busySlots (js env) events))), eff))"

subsection \<open>The window and the gaps, as instants\<close>

text \<open>An event overlaps the window from \<open>qs\<close> to \<open>qe\<close>: it has a start and an end
  that are dates, it starts before \<open>qe\<close> and ends after \<open>qs\<close>.\<close>

definition event_overlaps :: "js_env \<Rightarrow> int \<Rightarrow> int \<Rightarrow> calendar_event \<Rightarrow> bool" where
  "event_overlaps env qs qe ev =
     (case (first_truthy (ev_start_dateTime ev) (ev_start_date ev),
            first_truthy (ev_end_dateTime ev) (ev_end_date ev)) of
        (Some s, Some e) \<Rightarrow>
          (case (Date_parse env s, Date_parse env e) of
             (Some existingStart, Some existingEnd) \<Rightarrow> existingStart < qe \<and> existingEnd > qs
           | _ \<Rightarrow> False)
      | _ \<Rightarrow> False)"

text \<open>The gaps that a sweep from \<open>cur\<close> leaves between busy intervals, up to \<open>E\<close>:
  the loop of \<open>sweep\<close> on valid dates, with no minimum and no accumulator.\<close>

fun gaps_from :: "int \<Rightarrow> int \<Rightarrow> (int \<times> int) list \<Rightarrow> (int \<times> int) list" where
  "gaps_from E cur [] = (if cur < E then [(cur, E)] else [])"
| "gaps_from E cur ((s, e) # rest) =
     (if cur < s \<and> cur \<le> min s E then [(cur, min s E)] else []) @ gaps_from E (max cur e) rest"

definition valid_slot :: "int \<times> int \<Rightarrow> int option \<times> int option" where
  "valid_slot p = (Some (fst p), Some (snd p))"

text \<open>An example calendar: on 15 January 2024 a meeting from 12:00 to 13:00, a
  short one from 10:30 to 10:45 and one from 11:00 to 12:00 (all UTC).\<close>

definition meeting :: "string \<Rightarrow> string \<Rightarrow> string \<Rightarrow> calendar_event" where
  "meeting l s e = \<lparr>ev_label = l, ev_start_dateTime = Some s, ev_start_date = None,
     ev_end_dateTime = Some e, ev_end_date = None\<rparr>"

definition example_env :: "calendar_event list \<Rightarrow> tool_env" where
  "example_env evs = \<lparr>js = utc_env, clock = (\<lambda>k. 1705276800000 + int k),
     events_list = (\<lambda>params. Inr evs),
     events_insert = (\<lambda>c b. Inr (meeting ''created'' [] [])),
     events_update = (\<lambda>i b. Inr (meeting ''updated'' [] [])),
     events_delete = (\<lambda>c i. Inr ()),
     calendarList_list = Inr [],
     run_bash = (\<lambda>c. Inr []),
     formatCalendarEvent = ev_label\<rparr>"

definition morning_events :: "calendar_event list" where
  "morning_events = [meeting ''short'' ''2024-01-15T10:30:00Z'' ''2024-01-15T10:45:00Z'',
     meeting ''next'' ''2024-01-15T11:00:00Z'' ''2024-01-15T12:00:00Z'']"

definition noon_events :: "calendar_event list" where
  "noon_events = [meeting ''lunch'' ''2024-01-15T12:00:00Z'' ''2024-01-15T13:00:00Z'']"

section \<open>The tools\<close>

subsection \<open>Validation of the arguments\<close>

definition quoted :: "string \<Rightarrow> string" where
  "quoted s = [CHR 0x22] @ s @ [CHR 0x22]"

text \<open>\<^verbatim>\<open>validateInteger(value, paramName, min?, max?)\<close>: \<^verbatim>\<open>Number.isInteger\<close> holds of the
  integral numbers only.\<close>

definition validateInteger :: "json option \<Rightarrow> string \<Rightarrow> int option \<Rightarrow> int option \<Rightarrow> thrown + unit" where
  "validateInteger v paramName mn mx = (case v of
       None \<Rightarrow> Inr ()
     | Some JNull \<Rightarrow> Inr ()
     | Some (JNumber (NInt n)) \<Rightarrow>
         (case (case mn of None \<Rightarrow> None | Some m \<Rightarrow> (if n < m then Some m else None)) of
            Some m \<Rightarrow> Inl (Error (paramName @ '' must be at least '' @ string_of_int m @
                       ''. Received: '' @ string_of_int n))
          | None \<Rightarrow>
              (case (case mx of None \<Rightarrow> None | Some m \<Rightarrow> (if n > m then Some m else None)) of
                 Some m \<Rightarrow> Inl (Error (paramName @ '' must be at most '' @ string_of_int m @
                            ''. Received: '' @ string_of_int n))
               | None \<Rightarrow> Inr ()))
     | Some x \<Rightarrow> and_then (String_of v) (\<lambda>s.
         Inl (Error (paramName @ '' must be an integer. Received: '' @ js_typeof v @ '' '' @ quoted s))))"

definition validateString :: "json option \<Rightarrow> string \<Rightarrow> thrown + unit" where
  "validateString v paramName = (case v of
       None \<Rightarrow> Inr ()
     | Some JNull \<Rightarrow> Inr ()
     | Some (JString s) \<Rightarrow> Inr ()
     | Some x \<Rightarrow> and_then (String_of v) (\<lambda>s.
         Inl (Error (paramName @ '' must be a string. Received: '' @ js_typeof v @ '' '' @ quoted s))))"

text \<open>\<^verbatim>\<open>/^[^\s@]+@[^\s@]+\.[^\s@]+$/\<close>: no white space, one \<^verbatim>\<open>@\<close> with something before
  it, and after it a dot that is neither first nor last.\<close>

definition emailRegex :: "string \<Rightarrow> bool" where
  "emailRegex s =
     (let local = takeWhile (\<lambda>c. c \<noteq> CHR ''@'') s; rest = dropWhile (\<lambda>c. c \<noteq> CHR ''@'') s
      in list_all (\<lambda>c. \<not> is_space c) s \<and> local \<noteq> [] \<and> rest \<noteq> [] \<and>
         CHR ''@'' \<notin> set (tl rest) \<and> CHR ''.'' \<in> set (butlast (tl (tl rest))))"

fun validateEmails :: "string \<Rightarrow> nat \<Rightarrow> json list \<Rightarrow> thrown + unit" where
  "validateEmails paramName i [] = Inr ()"
| "validateEmails paramName i (x # xs) = (case x of
       JString s \<Rightarrow>
         (if emailRegex s then validateEmails paramName (Suc i) xs
          else Inl (Error (paramName @ ''['' @ string_of_nat i @ ''] must be a valid email address. Received: ''
                 @ quoted s)))
     | _ \<Rightarrow> and_then (String_of (Some x)) (\<lambda>s.
         Inl (Error (paramName @ ''['' @ string_of_nat i @ ''] must be a string email address. Received: ''
                @ js_typeof (Some x) @ '' '' @ quoted s))))"

definition validateEmailArray :: "json option \<Rightarrow> string \<Rightarrow> thrown + unit" where
  "validateEmailArray emails paramName = (case emails of
       None \<Rightarrow> Inr ()
     | Some JNull \<Rightarrow> Inr ()
     | Some (JArray xs) \<Rightarrow> validateEmails paramName 0 xs
     | Some x \<Rightarrow> Inl (Error (paramName @ '' must be an array of email addresses. Received: '' @ js_typeof emails)))"

subsection \<open>\<^verbatim>\<open>formatGoogleApiError\<close>\<close>

definition truthy_code :: "code_val option \<Rightarrow> bool" where
  "truthy_code c = (case c of None \<Rightarrow> False | Some (CNum n) \<Rightarrow> n \<noteq> 0 | Some (CStr s) \<Rightarrow> s \<noteq> [])"

definition first_code :: "code_val option list \<Rightarrow> code_val option" where
  "first_code cs = (case filter truthy_code cs of [] \<Rightarrow> None | c # r \<Rightarrow> c)"

definition String_of_code :: "code_val \<Rightarrow> string" where
  "String_of_code c = (case c of CNum n \<Rightarrow> string_of_int n | CStr s \<Rightarrow> s)"

text \<open>The properties \<^verbatim>\<open>message\<close>, \<^verbatim>\<open>code\<close>, \<^verbatim>\<open>status\<close> and \<^verbatim>\<open>errors\<close> of the error
  object itself.\<close>

definition own_details :: "thrown \<Rightarrow> error_details" where
  "own_details e = (case e of
       External a \<Rightarrow> \<lparr>ed_message = Some (ae_message a), ed_error_description = None,
         ed_code = ae_code a, ed_status = ae_status a, ed_errors = ae_errors a\<rparr>
     | _ \<Rightarrow> \<lparr>ed_message = Some (message_of e), ed_error_description = None,
         ed_code = None, ed_status = None, ed_errors = []\<rparr>)"

text \<open>\<^verbatim>\<open>error?.cause || error?.response?.data?.error || error?.response?.data || error\<close>\<close>

definition errorDetails :: "thrown \<Rightarrow> error_details" where
  "errorDetails e = (case e of
       External a \<Rightarrow> (case ae_cause a of
           Some d \<Rightarrow> d
         | None \<Rightarrow> (case ae_response_data_error a of
               Some d \<Rightarrow> d
             | None \<Rightarrow> (case ae_response_data a of Some d \<Rightarrow> d | None \<Rightarrow> own_details e)))
     | _ \<Rightarrow> own_details e)"

definition reason_text :: "string \<Rightarrow> string option" where
  \<open>reason_text r =
     (if r = ''invalid'' then Some ''Invalid parameter value. Please check your date format (use ISO 8601 like "2024-01-15T14:30:00") and other parameters''
      else if r = ''badRequest'' then Some ''Bad request. Please check your date/time format (use ISO 8601 like "2024-01-15T14:30:00") and parameter types''
      else if r = ''notFound'' then Some ''Resource not found. The calendar or event may not exist or may have been deleted''
      else if r = ''forbidden'' then Some ''Access denied. You may not have permission to access this calendar''
      else if r = ''unauthorized'' then Some ''Authentication failed. Please re-authenticate with Google Calendar''
      else None)\<close>

definition code_text :: "code_val option \<Rightarrow> string \<Rightarrow> string" where
  \<open>code_text code message =
     (if code = Some (CNum 400) then
        (if js_includes (toLowerCase message) ''time'' \<or> js_includes (toLowerCase message) ''date''
         then ''Invalid date/time format. Please use ISO 8601 format like "2024-01-15T14:30:00" or "2024-01-15T14:30:00Z"''
         else if js_includes (toLowerCase message) ''calendar''
         then ''Invalid calendar ID. Use "primary" for your main calendar or get valid IDs with get_calendars''
         else if js_includes (toLowerCase message) ''event''
         then ''Invalid event ID. Get valid event IDs from get_events_in_time_range''
         else ''Bad request: '' @ message @
           ''. Please check your parameters (especially date formats - use ISO 8601 like "2024-01-15T14:30:00")'')
      else if code = Some (CNum 401) then ''Authentication failed. Please re-authenticate with Google Calendar''
      else if code = Some (CNum 403) then ''Permission denied. Check that you have calendar access permissions''
      else if code = Some (CNum 404) then ''Resource not found. The calendar or event may have been deleted''
      else ''Google Calendar API error ('' @
        (case code of None \<Rightarrow> ''unknown'' | Some c \<Rightarrow> String_of_code c) @ ''): '' @ message)\<close>

definition formatGoogleApiError :: "thrown \<Rightarrow> string" where
  "formatGoogleApiError e =
     (let d = errorDetails e;
          message = (case first_truthy (ed_message d) (ed_error_description d) of
                       None \<Rightarrow> ''Unknown error'' | Some m \<Rightarrow> m);
          code = first_code [ed_code d, ed_status d, ed_code (own_details e), ed_status (own_details e)]
      in case ed_errors d of
           [] \<Rightarrow> code_text code message
         | (m0, r0) # rest \<Rightarrow>
             (let message' = (case first_truthy m0 None of None \<Rightarrow> message | Some m \<Rightarrow> m)
              in case (case first_truthy r0 None of None \<Rightarrow> None | Some r \<Rightarrow> reason_text r) of
                   Some t \<Rightarrow> t
                 | None \<Rightarrow> code_text code message'))"

text \<open>The test of the handler for an error of the calendar client.\<close>

definition isGoogleApiError :: "thrown \<Rightarrow> bool" where
  "isGoogleApiError e =
     ((case e of
         External a \<Rightarrow> ae_code a \<noteq> None \<or> ae_has_response a \<or> ae_cause a \<noteq> None \<or>
           ae_constructor a = ''GaxiosError''
       | _ \<Rightarrow> False) \<or>
      (message_of e \<noteq> [] \<and> js_includes (message_of e) ''googleapis''))"

subsection \<open>The text of the results\<close>

definition join :: "string \<Rightarrow> string list \<Rightarrow> string" where
  "join sep xs = (case xs of [] \<Rightarrow> [] | x # r \<Rightarrow> foldl (\<lambda>acc y. acc @ sep @ y) x r)"

text \<open>The list position, from 1, before each line.\<close>

definition numbered :: "string list \<Rightarrow> string list" where
  "numbered xs = map (\<lambda>(i, x). string_of_nat (Suc i) @ ''. '' @ x) (zip [0..<length xs] xs)"

definition formatCalendarEvents :: "tool_env \<Rightarrow> calendar_event list \<Rightarrow> string" where
  "formatCalendarEvents env events =
     (if events = [] then ''No events found in the specified time range.''
      else join [CHR 0x0A, CHR 0x0A] (numbered (map (formatCalendarEvent env) events)))"

text \<open>The marks that the source writes before a slot, a calendar, its id and its
  description, byte for byte.\<close>

definition mark_slot :: string where
  "mark_slot = [CHR 0xEF, CHR 0xA3, CHR 0xBF, CHR 0xC3, CHR 0xBC, CHR 0xC3, CHR 0xAF, CHR 0xC3, CHR 0xAD]"

definition mark_calendar :: string where
  "mark_calendar = [CHR 0xEF, CHR 0xA3, CHR 0xBF, CHR 0xC3, CHR 0xBC, CHR 0xC3, CHR 0xAC, CHR 0xC3, CHR 0x96]"

definition mark_id :: string where
  "mark_id = [CHR 0xEF, CHR 0xA3, CHR 0xBF, CHR 0xC3, CHR 0xBC, CHR 0xC3, CHR 0x9C, CHR 0xC3, CHR 0xAE]"

definition mark_note :: string where
  "mark_note = [CHR 0xEF, CHR 0xA3, CHR 0xBF, CHR 0xC3, CHR 0xBC, CHR 0xC3, CHR 0xAC, CHR 0xC3, CHR 0xB9]"

definition locale_text :: "js_env \<Rightarrow> string \<Rightarrow> string" where
  "locale_text env s = (case Date_parse env s of None \<Rightarrow> ''Invalid Date'' | Some t \<Rightarrow> toLocaleString env t)"

definition formatSlots :: "js_env \<Rightarrow> (string \<times> string) list \<Rightarrow> string" where
  "formatSlots env freeSlots =
     (if freeSlots = [] then ''No free time slots found in the specified range.''
      else ''Found '' @ string_of_nat (length freeSlots) @ '' free time slots:'' @ [CHR 0x0A, CHR 0x0A] @
        join [CHR 0x0A]
          (numbered (map (\<lambda>(a, b). mark_slot @ '' '' @ locale_text env a @ '' - '' @ locale_text env b) freeSlots)))"

definition formatCalendars :: "calendar_entry list \<Rightarrow> string" where
  "formatCalendars calendars =
     ''Available calendars:'' @ [CHR 0x0A, CHR 0x0A] @
     join [CHR 0x0A, CHR 0x0A]
       (numbered (map (\<lambda>cal.
          mark_calendar @ '' '' @ (case first_truthy (ce_summary cal) None of None \<Rightarrow> ''Untitled Calendar'' | Some s \<Rightarrow> s) @
          [CHR 0x0A] @ ''   '' @ mark_id @ '' ID: '' @ (case ce_id cal of None \<Rightarrow> ''undefined'' | Some i \<Rightarrow> i) @
          [CHR 0x0A] @ ''   '' @ mark_note @ '' '' @
          (case first_truthy (ce_description cal) None of None \<Rightarrow> ''No description'' | Some s \<Rightarrow> s)) calendars))"

subsection \<open>\<^verbatim>\<open>handleToolCall\<close>\<close>

text \<open>
  A step of the \<^verbatim>\<open>try\<close> block that has no effect outside, and what follows it; the
  requests to the shell and to the calendar are the effects.
\<close>

definition pure_then :: "thrown + 'a \<Rightarrow> ('a \<Rightarrow> (thrown + 'b) \<times> effect list) \<Rightarrow> (thrown + 'b) \<times> effect list" where
  "pure_then r f = (case r of Inl e \<Rightarrow> (Inl e, []) | Inr x \<Rightarrow> f x)"

definition then_text :: "(thrown + 'a) \<times> effect list \<Rightarrow> ('a \<Rightarrow> string) \<Rightarrow> (thrown + string) \<times> effect list" where
  "then_text r f = (case fst r of Inl e \<Rightarrow> (Inl e, snd r) | Inr x \<Rightarrow> (Inr (f x), snd r))"

definition auth_required :: thrown where
  "auth_required = Error ''Google Calendar authentication required''"

text \<open>Reading a property of \<^verbatim>\<open>toolCall.input\<close> when it is \<^verbatim>\<open>null\<close>, and destructuring
  it: the \<^verbatim>\<open>TypeError\<close> of the engine, in the words of V8.\<close>

definition null_read :: "string \<Rightarrow> thrown" where
  "null_read k = TypeError (''Cannot read properties of null (reading '' @ [CHR 0x27] @ k @ [CHR 0x27] @ '')'')"

definition null_destructure :: "string \<Rightarrow> thrown" where
  "null_destructure k = TypeError (''Cannot destructure property '' @ [CHR 0x27] @ k @ [CHR 0x27] @
     '' of '' @ [CHR 0x27] @ ''toolCall.input'' @ [CHR 0x27] @ '' as it is null.'')"

text \<open>\<^verbatim>\<open>{ ...toolCall.input }\<close>: the members of an object, the elements of an array
  and the characters of a string under their positions, and nothing of another
  value.\<close>

definition own_props :: "json \<Rightarrow> obj" where
  "own_props v = (case v of
       JObject ms \<Rightarrow> assign [] ms
     | JArray xs \<Rightarrow> zip (map string_of_nat [0..<length xs]) xs
     | JString s \<Rightarrow> zip (map string_of_nat [0..<length s]) (map (\<lambda>c. JString [c]) s)
     | _ \<Rightarrow> [])"

text \<open>\<^verbatim>\<open>attendees?.map((email) => ({ email }))\<close> after the validation.\<close>

definition attendee_list :: "json option \<Rightarrow> json list option" where
  "attendee_list a = (case a of Some (JArray xs) \<Rightarrow> Some xs | _ \<Rightarrow> None)"

definition tool_bash :: "tool_env \<Rightarrow> json \<Rightarrow> (thrown + string) \<times> effect list" where
  "tool_bash env input =
     (if input = JNull then (Inl (null_read ''command''), [])
      else (run_bash env (js_get input ''command''), [Spawn (js_get input ''command'')]))"

text \<open>The optional bound of a query: normalized when it is truthy, left as it is
  in the copy of the input otherwise.\<close>

definition normalize_bound :: "tool_env \<Rightarrow> nat \<Rightarrow> json \<Rightarrow> string \<Rightarrow> obj \<Rightarrow> thrown + obj" where
  "normalize_bound env k input name normalizedInput =
     (if js_truthy (js_get input name)
      then and_then (normalizeDateTime (js env) (clock env k) (js_get input name) name)
             (\<lambda>s. Inr (set_prop normalizedInput name (JString s)))
      else Inr normalizedInput)"

definition tool_get_events :: "tool_env \<Rightarrow> bool \<Rightarrow> json \<Rightarrow> (thrown + string) \<times> effect list" where
  "tool_get_events env auth input =
     (if \<not> auth then (Inl auth_required, [])
      else if input = JNull then (Inl (null_read ''maxResults''), [])
      else
        pure_then (validateInteger (js_get input ''maxResults'') ''maxResults'' (Some 1) (Some 100)) (\<lambda>_.
        pure_then (validateString (js_get input ''calendarId'') ''calendarId'') (\<lambda>_.
        pure_then (normalize_bound env 0 input ''timeMin'' (own_props input)) (\<lambda>n1.
        pure_then (normalize_bound env 1 input ''timeMax'' n1) (\<lambda>normalizedInput.
        then_text (getEventsInTimeRange env (clock env 2) normalizedInput) (formatCalendarEvents env))))))"

definition tool_create_event :: "tool_env \<Rightarrow> bool \<Rightarrow> json \<Rightarrow> (thrown + string) \<times> effect list" where
  "tool_create_event env auth input =
     (if \<not> auth then (Inl auth_required, [])
      else if input = JNull then (Inl (null_destructure ''title''), [])
      else
        pure_then (validateString (js_get input ''title'') ''title'') (\<lambda>_.
        pure_then (if js_truthy (js_get input ''title'') then Inr ()
                   else Inl (Error ''title is required and cannot be empty'')) (\<lambda>_.
        pure_then (normalizeDateTime (js env) (clock env 0) (js_get input ''startDateTime'') ''startDateTime'')
          (\<lambda>normalizedStartDateTime.
        pure_then (normalizeDateTime (js env) (clock env 1) (js_get input ''endDateTime'') ''endDateTime'')
          (\<lambda>normalizedEndDateTime.
        pure_then (validateString (js_get input ''description'') ''description'') (\<lambda>_.
        pure_then (validateString (js_get input ''location'') ''location'') (\<lambda>_.
        pure_then (validateString (js_get input ''calendarId'') ''calendarId'') (\<lambda>_.
        pure_then (validateEmailArray (js_get input ''attendees'') ''attendees'') (\<lambda>_.
        pure_then (if date_ge (Date_parse (js env) normalizedStartDateTime)
                              (Date_parse (js env) normalizedEndDateTime)
                   then Inl (Error ''startDateTime must be before endDateTime'') else Inr ()) (\<lambda>_.
        pure_then (createGoogleDateTime (js env) (clock env 2) (js_get input ''startDateTime''))
          (\<lambda>startGoogleDateTime.
        pure_then (createGoogleDateTime (js env) (clock env 3) (js_get input ''endDateTime''))
          (\<lambda>endGoogleDateTime.
        then_text
          (createEvent env
             \<lparr>eb_summary = js_get input ''title'', eb_description = js_get input ''description'',
              eb_location = js_get input ''location'', eb_start = Some startGoogleDateTime,
              eb_end = Some endGoogleDateTime, eb_attendees = attendee_list (js_get input ''attendees'')\<rparr>
             (js_get input ''calendarId''))
          (\<lambda>createdEvent. ''Event created successfully!'' @ [CHR 0x0A, CHR 0x0A] @
             formatCalendarEvent env createdEvent)))))))))))))"

text \<open>\<^verbatim>\<open>toolCall.input.durationMinutes || 60\<close> after the validation.\<close>

definition duration_or_60 :: "json option \<Rightarrow> int" where
  "duration_or_60 v = (case v of Some (JNumber (NInt n)) \<Rightarrow> (if n = 0 then 60 else n) | _ \<Rightarrow> 60)"

definition tool_create_quick_event :: "tool_env \<Rightarrow> bool \<Rightarrow> json \<Rightarrow> (thrown + string) \<times> effect list" where
  "tool_create_quick_event env auth input =
     (if \<not> auth then (Inl auth_required, [])
      else if input = JNull then (Inl (null_read ''title''), [])
      else
        pure_then (validateString (js_get input ''title'') ''title'') (\<lambda>_.
        pure_then (if js_truthy (js_get input ''title'') then Inr ()
                   else Inl (Error ''title is required and cannot be empty'')) (\<lambda>_.
        pure_then (normalizeDateTime (js env) (clock env 0) (js_get input ''startDateTime'') ''startDateTime'')
          (\<lambda>normalizedQuickStartDateTime.
        pure_then (validateInteger (js_get input ''durationMinutes'') ''durationMinutes'' (Some 1) None) (\<lambda>_.
        pure_then (validateString (js_get input ''description'') ''description'') (\<lambda>_.
        pure_then (validateString (js_get input ''location'') ''location'') (\<lambda>_.
        pure_then (validateString (js_get input ''calendarId'') ''calendarId'') (\<lambda>_.
        pure_then (validateEmailArray (js_get input ''attendees'') ''attendees'') (\<lambda>_.
        then_text
          (createQuickEvent env (js_get input ''title'') normalizedQuickStartDateTime
             (duration_or_60 (js_get input ''durationMinutes''))
             (js_get input ''description'') (js_get input ''location'') (js_get input ''calendarId'')
             (attendee_list (js_get input ''attendees'')))
          (\<lambda>quickEvent. ''Quick event created successfully!'' @ [CHR 0x0A, CHR 0x0A] @
             formatCalendarEvent env quickEvent))))))))))"

text \<open>In \<^verbatim>\<open>update_event\<close> a date is normalized, and later sent, only if it is truthy.\<close>

definition normalize_optional :: "tool_env \<Rightarrow> nat \<Rightarrow> json option \<Rightarrow> string \<Rightarrow> thrown + string option" where
  "normalize_optional env k v name =
     (if js_truthy v then and_then (normalizeDateTime (js env) (clock env k) v name) (\<lambda>s. Inr (Some s))
      else Inr None)"

definition google_optional :: "tool_env \<Rightarrow> nat \<Rightarrow> json option \<Rightarrow> thrown + GoogleCalendarDateTime option" where
  "google_optional env k v =
     (if js_truthy v then and_then (createGoogleDateTime (js env) (clock env k) v) (\<lambda>g. Inr (Some g))
      else Inr None)"

definition if_truthy :: "json option \<Rightarrow> json option" where
  "if_truthy v = (if js_truthy v then v else None)"

definition start_not_before_end :: "js_env \<Rightarrow> string option \<Rightarrow> string option \<Rightarrow> bool" where
  "start_not_before_end env s e = (case (s, e) of
       (Some a, Some b) \<Rightarrow> a \<noteq> [] \<and> b \<noteq> [] \<and> date_ge (Date_parse env a) (Date_parse env b)
     | _ \<Rightarrow> False)"

definition tool_update_event :: "tool_env \<Rightarrow> bool \<Rightarrow> json \<Rightarrow> (thrown + string) \<times> effect list" where
  "tool_update_event env auth input =
     (if \<not> auth then (Inl auth_required, [])
      else if input = JNull then (Inl (null_destructure ''eventId''), [])
      else
        pure_then (validateString (js_get input ''eventId'') ''eventId'') (\<lambda>_.
        pure_then (if js_truthy (js_get input ''eventId'') then Inr ()
                   else Inl (Error ''eventId is required and cannot be empty'')) (\<lambda>_.
        pure_then (normalize_optional env 0 (js_get input ''startDateTime'') ''startDateTime'')
          (\<lambda>normalizedUpdateStartDateTime.
        pure_then (normalize_optional env 1 (js_get input ''endDateTime'') ''endDateTime'')
          (\<lambda>normalizedUpdateEndDateTime.
        pure_then (validateString (js_get input ''title'') ''title'') (\<lambda>_.
        pure_then (validateString (js_get input ''description'') ''description'') (\<lambda>_.
        pure_then (validateString (js_get input ''location'') ''location'') (\<lambda>_.
        pure_then (validateEmailArray (js_get input ''attendees'') ''attendees'') (\<lambda>_.
        pure_then (if start_not_before_end (js env) normalizedUpdateStartDateTime normalizedUpdateEndDateTime
                   then Inl (Error ''startDateTime must be before endDateTime'') else Inr ()) (\<lambda>_.
        pure_then (google_optional env 2 (js_get input ''startDateTime'')) (\<lambda>start.
        pure_then (google_optional env 3 (js_get input ''endDateTime'')) (\<lambda>end.
        then_text
          (updateEvent env (case js_get input ''eventId'' of Some i \<Rightarrow> i | None \<Rightarrow> JNull)
             \<lparr>eb_summary = if_truthy (js_get input ''title''),
              eb_description = if_truthy (js_get input ''description''),
              eb_location = if_truthy (js_get input ''location''),
              eb_start = start, eb_end = end,
              eb_attendees = (if js_truthy (js_get input ''attendees'')
                              then attendee_list (js_get input ''attendees'') else None)\<rparr>)
          (\<lambda>updatedEvent. ''Event updated successfully!'' @ [CHR 0x0A, CHR 0x0A] @
             formatCalendarEvent env updatedEvent)))))))))))))"

definition tool_delete_event :: "tool_env \<Rightarrow> bool \<Rightarrow> json \<Rightarrow> (thrown + string) \<times> effect list" where
  "tool_delete_event env auth input =
     (if \<not> auth then (Inl auth_required, [])
      else if input = JNull then (Inl (null_read ''eventId''), [])
      else
        pure_then (validateString (js_get input ''eventId'') ''eventId'') (\<lambda>_.
        pure_then (if js_truthy (js_get input ''eventId'') then Inr ()
                   else Inl (Error ''eventId is required and cannot be empty'')) (\<lambda>_.
        pure_then (validateString (js_get input ''calendarId'') ''calendarId'') (\<lambda>_.
        then_text
          (deleteEvent env (case js_get input ''eventId'' of Some i \<Rightarrow> i | None \<Rightarrow> JNull)
             (js_get input ''calendarId''))
          (\<lambda>_. ''Event deleted successfully!'')))))"

definition tool_check_conflicts :: "tool_env \<Rightarrow> bool \<Rightarrow> json \<Rightarrow> (thrown + string) \<times> effect list" where
  "tool_check_conflicts env auth input =
     (if \<not> auth then (Inl auth_required, [])
      else if input = JNull then (Inl (null_read ''startTime''), [])
      else
        pure_then (normalizeDateTime (js env) (clock env 0) (js_get input ''startTime'') ''startTime'')
          (\<lambda>normalizedConflictStartTime.
        pure_then (normalizeDateTime (js env) (clock env 1) (js_get input ''endTime'') ''endTime'')
          (\<lambda>normalizedConflictEndTime.
        pure_then (validateString (js_get input ''calendarId'') ''calendarId'') (\<lambda>_.
        pure_then (if date_ge (Date_parse (js env) normalizedConflictStartTime)
                              (Date_parse (js env) normalizedConflictEndTime)
                   then Inl (Error ''startTime must be before endTime'') else Inr ()) (\<lambda>_.
        then_text
          (checkForConflicts env (clock env 2) normalizedConflictStartTime normalizedConflictEndTime
             (js_get input ''calendarId''))
          (\<lambda>conflicts.
             if conflicts = [] then ''No conflicts found in the specified time range.''
             else ''Found '' @ string_of_nat (length conflicts) @ '' conflicts:'' @ [CHR 0x0A, CHR 0x0A] @
               formatCalendarEvents env conflicts))))))"

text \<open>The minutes that \<^verbatim>\<open>findFreeTimeSlots\<close> works with, after the validation:
  the default 60 stands for \<^verbatim>\<open>undefined\<close>, and \<^verbatim>\<open>null\<close> counts as 0.\<close>

definition slot_minutes :: "json option \<Rightarrow> int" where
  "slot_minutes v = (case v of Some (JNumber (NInt n)) \<Rightarrow> n | Some JNull \<Rightarrow> 0 | _ \<Rightarrow> 60)"

definition tool_find_free_time :: "tool_env \<Rightarrow> bool \<Rightarrow> json \<Rightarrow> (thrown + string) \<times> effect list" where
  "tool_find_free_time env auth input =
     (if \<not> auth then (Inl auth_required, [])
      else if input = JNull then (Inl (null_read ''startDate''), [])
      else
        pure_then (normalizeDateTime (js env) (clock env 0) (js_get input ''startDate'') ''startDate'')
          (\<lambda>normalizedFreeStartDate.
        pure_then (normalizeDateTime (js env) (clock env 1) (js_get input ''endDate'') ''endDate'')
          (\<lambda>normalizedFreeEndDate.
        pure_then (validateInteger (js_get input ''slotDurationMinutes'') ''slotDurationMinutes'' (Some 1) None) (\<lambda>_.
        pure_then (validateString (js_get input ''calendarId'') ''calendarId'') (\<lambda>_.
        pure_then (if date_ge (Date_parse (js env) normalizedFreeStartDate)
                              (Date_parse (js env) normalizedFreeEndDate)
                   then Inl (Error ''startDate must be before endDate'') else Inr ()) (\<lambda>_.
        then_text
          (findFreeTimeSlots env (clock env 2) normalizedFreeStartDate normalizedFreeEndDate
             (slot_minutes (js_get input ''slotDurationMinutes'')) (js_get input ''calendarId''))
          (formatSlots (js env))))))))"

definition tool_get_calendars :: "tool_env \<Rightarrow> bool \<Rightarrow> (thrown + string) \<times> effect list" where
  "tool_get_calendars env auth =
     (if \<not> auth then (Inl auth_required, [])
      else then_text (getCalendars env) formatCalendars)"

text \<open>The \<^verbatim>\<open>switch\<close> on the name of the tool: the body of the \<^verbatim>\<open>try\<close> block.\<close>

definition dispatch :: "tool_env \<Rightarrow> ToolCall \<Rightarrow> bool \<Rightarrow> (thrown + string) \<times> effect list" where
  "dispatch env toolCall auth =
     (if tc_name toolCall = ''bash'' then tool_bash env (tc_input toolCall)
      else if tc_name toolCall = ''get_events_in_time_range'' then tool_get_events env auth (tc_input toolCall)
      else if tc_name toolCall = ''create_event'' then tool_create_event env auth (tc_input toolCall)
      else if tc_name toolCall = ''create_quick_event'' then tool_create_quick_event env auth (tc_input toolCall)
      else if tc_name toolCall = ''update_event'' then tool_update_event env auth (tc_input toolCall)
      else if tc_name toolCall = ''delete_event'' then tool_delete_event env auth (tc_input toolCall)
      else if tc_name toolCall = ''check_conflicts'' then tool_check_conflicts env auth (tc_input toolCall)
      else if tc_name toolCall = ''find_free_time'' then tool_find_free_time env auth (tc_input toolCall)
      else if tc_name toolCall = ''get_calendars'' then tool_get_calendars env auth
      else (Inl (Error (''Unsupported tool: '' @ tc_name toolCall)), []))"

record tool_message =
  role :: string
  tool_call_id :: string
  content :: string

text \<open>The text that the \<^verbatim>\<open>catch\<close> block makes of what was thrown. (Its debug print
  of an error of the calendar client is not modelled.)\<close>

definition error_content :: "string \<Rightarrow> thrown \<Rightarrow> string" where
  "error_content name e =
     ''Error executing '' @ name @ '': '' @
     (if isGoogleApiError e then formatGoogleApiError e else message_of e)"

text \<open>\<^verbatim>\<open>handleToolCall(toolCall, auth)\<close>: the message that is returned, and the requests
  that were made; \<open>auth\<close> says whether the calendar handle is there.\<close>

definition handleToolCall :: "tool_env \<Rightarrow> ToolCall \<Rightarrow> bool \<Rightarrow> tool_message \<times> effect list" where
  "handleToolCall env toolCall auth =
     (case dispatch env toolCall auth of
        (Inr result, eff) \<Rightarrow> (\<lparr>role = ''tool'', tool_call_id = tc_id toolCall, content = result\<rparr>, eff)
      | (Inl e, eff) \<Rightarrow>
          (\<lparr>role = ''tool'', tool_call_id = tc_id toolCall,
            content = error_content (tc_name toolCall) e\<rparr>, eff))"

text \<open>The names that the \<^verbatim>\<open>switch\<close> knows, and the eight of them that need the
  calendar handle.\<close>

definition calendar_tools :: "string list" where
  "calendar_tools = [''get_events_in_time_range'', ''create_event'', ''create_quick_event'',
     ''update_event'', ''delete_event'', ''check_conflicts'', ''find_free_time'', ''get_calendars'']"

definition registered_tools :: "string list" where
  "registered_tools = ''bash'' # calendar_tools"



definition list_call :: "json \<Rightarrow> ToolCall" where
  "list_call input = \<lparr>tc_id = ''call_1'', tc_name = ''get_events_in_time_range'', tc_input = input\<rparr>"

definition update_call :: "json \<Rightarrow> ToolCall" where
  "update_call input = \<lparr>tc_id = ''call_2'', tc_name = ''update_event'', tc_input = input\<rparr>"

text \<open>An update whose start is an hour after its end.\<close>

definition late_start_update :: json where
  "late_start_update = JObject [(''eventId'', JString ''e1''),
     (''startDateTime'', JString ''2024-01-15T15:00:00''), (''endDateTime'', JString ''2024-01-15T14:00:00'')]"

section \<open>Properties of the streaming aggregator\<close>

lemma consume_foldl: "consume parse st chunks = foldl (chunk_step parse) st (until_finish chunks)"
  by (induction chunks arbitrary: st) auto

lemma foldl_chunk_tools:
  "toolCalls (content_step st ch) = toolCalls st"
  "currentToolCall (content_step st ch) = currentToolCall st"
  "errors (content_step st ch) = errors st"
  by (auto simp: content_step_def split: option.splits)

lemma delta_step_tool_part:
  "tool_part st = tool_part st' \<Longrightarrow> tool_part (delta_step parse st d) = tool_part (delta_step parse st' d)"
proof -
  assume a: "tool_part st = tool_part st'"
  then have eqs: "toolCalls st = toolCalls st'" "currentToolCall st = currentToolCall st'"
    "errors st = errors st'" by (simp_all add: tool_part_def)
  show ?thesis
  proof (cases "d_index d")
    case None
    then show ?thesis using a by (simp add: delta_step_def)
  next
    case (Some i)
    show ?thesis
    proof (cases "currentToolCall st")
      case None
      then show ?thesis using Some eqs by (simp add: delta_step_def tool_part_def)
    next
      case c: (Some c)
      show ?thesis
        by (cases "complete parse c")
           (use Some c eqs in \<open>simp_all add: delta_step_def tool_part_def finalize_def\<close>)
    qed
  qed
qed

lemma foldl_delta_tool_part:
  "tool_part st = tool_part st' \<Longrightarrow>
   tool_part (foldl (delta_step parse) st ds) = tool_part (foldl (delta_step parse) st' ds)"
proof (induction ds arbitrary: st st')
  case Nil
  then show ?case by simp
next
  case (Cons d ds)
  have "tool_part (delta_step parse st d) = tool_part (delta_step parse st' d)"
    using Cons.prems by (rule delta_step_tool_part)
  from Cons.IH[OF this] show ?case by simp
qed

lemma chunk_steps_tool_part:
  "tool_part st = tool_part st' \<Longrightarrow>
   tool_part (foldl (chunk_step parse) st chs) =
   tool_part (foldl (delta_step parse) st'
     (concat (map (\<lambda>ch. case c_tool_calls ch of None \<Rightarrow> [] | Some ds \<Rightarrow> ds) chs)))"
proof (induction chs arbitrary: st st')
  case Nil
  then show ?case by simp
next
  case (Cons ch chs)
  have "tool_part (content_step st ch) = tool_part st'"
    using Cons.prems by (simp add: tool_part_def foldl_chunk_tools)
  then have "tool_part (chunk_step parse st ch) =
      tool_part (foldl (delta_step parse) st' (case c_tool_calls ch of None \<Rightarrow> [] | Some ds \<Rightarrow> ds))"
    unfolding chunk_step_def by (rule foldl_delta_tool_part)
  from Cons.IH[OF this] show ?case by simp
qed

lemma finalize_tool_part:
  "tool_part st = tool_part st' \<Longrightarrow> tool_part (finalize parse st) = tool_part (finalize parse st')"
proof -
  assume a: "tool_part st = tool_part st'"
  then have eqs: "toolCalls st = toolCalls st'" "currentToolCall st = currentToolCall st'"
    "errors st = errors st'" by (simp_all add: tool_part_def)
  show ?thesis
  proof (cases "currentToolCall st")
    case None
    then show ?thesis using eqs by (simp add: finalize_def tool_part_def)
  next
    case c: (Some c)
    show ?thesis
      by (cases "complete parse c")
         (use c eqs in \<open>simp_all add: tool_part_def finalize_def\<close>)
  qed
qed

lemma map_filter_Cons_append:
  "List.map_filter f (x # xs) = List.map_filter f [x] @ List.map_filter f xs"
  by (simp add: List.map_filter_simps split: option.splits)

lemma fold_group:
  "currentToolCall st = Some c \<Longrightarrow>
   toolCalls (finalize parse (foldl (delta_step parse) st ds)) =
     toolCalls st @ List.map_filter (complete parse) (group c ds) \<and>
   errors (finalize parse (foldl (delta_step parse) st ds)) =
     errors st @ map p_arguments (filter (\<lambda>c. complete parse c = None) (group c ds))"
proof (induction ds arbitrary: st c)
  case Nil
  then show ?case
    by (cases "complete parse c") (simp_all add: finalize_def List.map_filter_simps)
next
  case (Cons d ds)
  let ?st = "delta_step parse st d"
  have step: "foldl (delta_step parse) st (d # ds) = foldl (delta_step parse) ?st ds"
    by simp
  show ?case
  proof (cases "d_index d")
    case None
    then have "?st = st" by (simp add: delta_step_def)
    moreover have "group c (d # ds) = group c ds" using None by simp
    ultimately show ?thesis using Cons.IH[OF Cons.prems] unfolding step by simp
  next
    case (Some i)
    show ?thesis
    proof (cases "i = p_index c")
      case True
      have c: "currentToolCall ?st = Some (extend_slot c d)"
        and t: "toolCalls ?st = toolCalls st" and e: "errors ?st = errors st"
        using Some True Cons.prems by (simp_all add: delta_step_def)
      have g: "group c (d # ds) = group (extend_slot c d) ds" using Some True by simp
      show ?thesis using Cons.IH[OF c] unfolding step g t e .
    next
      case False
      have c: "currentToolCall ?st = Some (open_slot i d)"
        using Some False Cons.prems by (simp add: delta_step_def)
      have t: "toolCalls ?st = toolCalls st @ List.map_filter (complete parse) [c]"
        and e: "errors ?st = errors st @ map p_arguments (filter (\<lambda>c. complete parse c = None) [c])"
        using Some False Cons.prems
        by (cases "complete parse c"; simp add: delta_step_def finalize_def List.map_filter_simps)+
      have g: "group c (d # ds) = c # group (open_slot i d) ds" using Some False by simp
      have f: "filter (\<lambda>c. complete parse c = None) (c # group (open_slot i d) ds) =
          filter (\<lambda>c. complete parse c = None) [c] @ filter (\<lambda>c. complete parse c = None) (group (open_slot i d) ds)"
        by simp
      show ?thesis using Cons.IH[OF c] unfolding step g t e f
        by (subst map_filter_Cons_append) (simp only: append_assoc map_append)
    qed
  qed
qed

lemma fold_runs:
  "currentToolCall st = None \<Longrightarrow>
   toolCalls (finalize parse (foldl (delta_step parse) st ds)) =
     toolCalls st @ List.map_filter (complete parse) (runs ds) \<and>
   errors (finalize parse (foldl (delta_step parse) st ds)) =
     errors st @ map p_arguments (filter (\<lambda>c. complete parse c = None) (runs ds))"
proof (induction ds arbitrary: st)
  case Nil
  then show ?case by (simp add: finalize_def List.map_filter_simps)
next
  case (Cons d ds)
  show ?case
  proof (cases "d_index d")
    case None
    then have "delta_step parse st d = st" by (simp add: delta_step_def)
    with Cons None show ?thesis by simp
  next
    case (Some i)
    let ?st = "delta_step parse st d"
    have c: "currentToolCall ?st = Some (open_slot i d)"
      and t: "toolCalls ?st = toolCalls st" and e: "errors ?st = errors st"
      using Some Cons.prems by (auto simp: delta_step_def)
    from fold_group[OF c, of parse ds] t e Some show ?thesis by simp
  qed
qed

lemma LLM_call_runs:
  "toolCalls (LLM_call parse chunks) = List.map_filter (complete parse) (runs (stream_deltas chunks))"
  "errors (LLM_call parse chunks) =
     map p_arguments (filter (\<lambda>c. complete parse c = None) (runs (stream_deltas chunks)))"
proof -
  let ?ds = "stream_deltas chunks"
  have "tool_part (consume parse initial_state chunks) =
        tool_part (foldl (delta_step parse) initial_state ?ds)"
    unfolding consume_foldl stream_deltas_def by (rule chunk_steps_tool_part) simp
  then have eq: "tool_part (LLM_call parse chunks) =
        tool_part (finalize parse (foldl (delta_step parse) initial_state ?ds))"
    unfolding LLM_call_def by (rule finalize_tool_part)
  have n: "currentToolCall initial_state = None" by (simp add: initial_state_def)
  from fold_runs[OF n, of parse ?ds] eq
  show "toolCalls (LLM_call parse chunks) = List.map_filter (complete parse) (runs (stream_deltas chunks))"
    and "errors (LLM_call parse chunks) =
     map p_arguments (filter (\<lambda>c. complete parse c = None) (runs (stream_deltas chunks)))"
    by (simp_all add: tool_part_def initial_state_def)
qed

lemma set_first_seen: "set (first_seen is) = set is"
  by (induction "is") auto

lemma filter_first_seen_id: "i \<notin> set is \<Longrightarrow> filter (\<lambda>j. j \<noteq> i) (first_seen is) = first_seen is"
  by (rule filter_True) (auto simp: set_first_seen)

lemma first_seen_dup: "first_seen (i # i # is) = first_seen (i # is)"
  by simp

lemma contiguous_dup: "contiguous (i # i # is) \<Longrightarrow> contiguous (i # is)"
  by simp

lemma contiguous_change: "i \<noteq> j \<Longrightarrow> contiguous (i # j # is) \<Longrightarrow> i \<notin> set (j # is) \<and> contiguous (j # is)"
  by simp

lemma absorb_Nil: "absorb c [] = c"
  by (simp add: absorb_def)

lemma absorb_extend: "absorb (extend_slot c d) fs = absorb c (d # fs)"
  by (simp add: absorb_def extend_slot_def)

lemma absorb_open: "absorb (open_slot i d) fs = gather i (d # fs)"
  by (simp add: absorb_def open_slot_def gather_def)

lemma delta_indices_simps:
  "delta_indices [] = []"
  "d_index d = None \<Longrightarrow> delta_indices (d # ds) = delta_indices ds"
  "d_index d = Some i \<Longrightarrow> delta_indices (d # ds) = i # delta_indices ds"
  by (simp_all add: delta_indices_def List.map_filter_simps)

lemma fragments_simps:
  "fragments i [] = []"
  "d_index d = Some i \<Longrightarrow> fragments i (d # ds) = d # fragments i ds"
  "d_index d \<noteq> Some i \<Longrightarrow> fragments i (d # ds) = fragments i ds"
  by (simp_all add: fragments_def)

lemma fragments_absent: "i \<notin> set (delta_indices ds) \<Longrightarrow> fragments i ds = []"
proof (induction ds)
  case Nil
  then show ?case by (simp add: fragments_simps)
next
  case (Cons d ds)
  show ?case
  proof (cases "d_index d")
    case None
    with Cons show ?thesis by (simp add: fragments_simps delta_indices_simps)
  next
    case (Some j)
    with Cons show ?thesis by (simp add: fragments_simps delta_indices_simps)
  qed
qed

lemma group_contiguous:
  "contiguous (p_index c # delta_indices ds) \<Longrightarrow>
   group c ds = map (slot_view c ds) (first_seen (p_index c # delta_indices ds))"
proof (induction ds arbitrary: c)
  case Nil
  then show ?case
    by (simp add: delta_indices_simps slot_view_def fragments_simps absorb_Nil)
next
  case (Cons d ds)
  show ?case
  proof (cases "d_index d")
    case None
    have v: "slot_view c (d # ds) = slot_view c ds"
      using None by (auto simp: slot_view_def fragments_simps)
    from Cons None show ?thesis
      by (simp add: delta_indices_simps v)
  next
    case (Some j)
    note di = delta_indices_simps(3)[OF Some]
    show ?thesis
    proof (cases "j = p_index c")
      case True
      let ?c = "extend_slot c d"
      have pi: "p_index ?c = p_index c" by (simp add: extend_slot_def)
      have cont: "contiguous (p_index ?c # delta_indices ds)"
        using Cons.prems True unfolding di pi by simp
      have v: "slot_view c (d # ds) = slot_view ?c ds"
      proof
        fix i
        show "slot_view c (d # ds) i = slot_view ?c ds i"
          using Some True
          by (cases "i = p_index c") (simp_all add: slot_view_def pi fragments_simps absorb_extend)
      qed
      have "group c (d # ds) = group ?c ds" using Some True by simp
      also have "\<dots> = map (slot_view ?c ds) (first_seen (p_index ?c # delta_indices ds))"
        by (rule Cons.IH[OF cont])
      also have "\<dots> = map (slot_view c (d # ds)) (first_seen (p_index c # delta_indices (d # ds)))"
        unfolding di pi v using True by simp
      finally show ?thesis .
    next
      case False
      let ?c = "open_slot j d"
      have pi: "p_index ?c = j" by (simp add: open_slot_def)
      have nc: "p_index c \<notin> set (j # delta_indices ds)" and cont: "contiguous (j # delta_indices ds)"
        using contiguous_change[of "p_index c" j "delta_indices ds"] Cons.prems False
        unfolding di by auto
      have g: "group c (d # ds) = c # group ?c ds" using Some False by simp
      have ih: "group ?c ds = map (slot_view ?c ds) (first_seen (j # delta_indices ds))"
        using Cons.IH[of ?c] cont unfolding pi by simp
      have fs: "first_seen (p_index c # delta_indices (d # ds)) = p_index c # first_seen (j # delta_indices ds)"
        unfolding di using filter_first_seen_id[OF nc] by simp
      have hd: "slot_view c (d # ds) (p_index c) = c"
      proof -
        have "fragments (p_index c) (d # ds) = []"
          by (rule fragments_absent) (use nc di in simp)
        then show ?thesis by (simp add: slot_view_def absorb_Nil)
      qed
      have tl: "map (slot_view c (d # ds)) (first_seen (j # delta_indices ds)) =
                map (slot_view ?c ds) (first_seen (j # delta_indices ds))"
      proof (rule map_cong[OF refl])
        fix i assume "i \<in> set (first_seen (j # delta_indices ds))"
        then have "i \<in> set (j # delta_indices ds)" by (simp only: set_first_seen)
        with nc have ne: "i \<noteq> p_index c" by auto
        show "slot_view c (d # ds) i = slot_view ?c ds i"
        proof (cases "i = j")
          case True
          then show ?thesis using ne Some
            by (simp add: slot_view_def pi fragments_simps absorb_open)
        next
          case f: False
          then have "d_index d \<noteq> Some i" using Some by simp
          then show ?thesis using ne f
            by (simp add: slot_view_def pi fragments_simps)
        qed
      qed
      show ?thesis unfolding g ih fs using hd tl by simp
    qed
  qed
qed

lemma runs_contiguous:
  "contiguous (delta_indices ds) \<Longrightarrow>
   runs ds = map (\<lambda>i. gather i (fragments i ds)) (first_seen (delta_indices ds))"
proof (induction ds)
  case Nil
  then show ?case by (simp add: delta_indices_simps)
next
  case (Cons d ds)
  show ?case
  proof (cases "d_index d")
    case None
    then have "\<And>i. fragments i (d # ds) = fragments i ds" by (simp add: fragments_simps)
    with Cons None show ?thesis by (simp add: delta_indices_simps)
  next
    case (Some j)
    note di = delta_indices_simps(3)[OF Some]
    let ?c = "open_slot j d"
    have pi: "p_index ?c = j" by (simp add: open_slot_def)
    have cont: "contiguous (p_index ?c # delta_indices ds)"
      using Cons.prems unfolding di pi .
    have v: "slot_view ?c ds = (\<lambda>i. gather i (fragments i (d # ds)))"
    proof
      fix i
      show "slot_view ?c ds i = gather i (fragments i (d # ds))"
        using Some by (cases "i = j") (simp_all add: slot_view_def pi fragments_simps absorb_open)
    qed
    have "runs (d # ds) = group ?c ds" using Some by simp
    also have "\<dots> = map (slot_view ?c ds) (first_seen (p_index ?c # delta_indices ds))"
      by (rule group_contiguous[OF cont])
    finally show ?thesis unfolding v pi di .
  qed
qed

lemma map_filter_map': "List.map_filter f (map g xs) = List.map_filter (\<lambda>x. f (g x)) xs"
  by (induction xs) (simp_all add: List.map_filter_simps split: option.splits)

lemma LLM_call_contiguous:
  "contiguous (delta_indices (stream_deltas chunks)) \<Longrightarrow>
   toolCalls (LLM_call parse chunks) = expected_calls parse (stream_deltas chunks)"
  unfolding LLM_call_runs(1) expected_calls_def
  by (simp add: runs_contiguous map_filter_map')

lemma group_not_Nil: "group c ds \<noteq> []"
  by (induction ds arbitrary: c) (auto split: option.splits)

lemma fold_group_open:
  "currentToolCall st = Some c \<Longrightarrow>
   currentToolCall (foldl (delta_step parse) st ds) = Some (last (group c ds)) \<and>
   toolCalls (foldl (delta_step parse) st ds) =
     toolCalls st @ List.map_filter (complete parse) (butlast (group c ds)) \<and>
   errors (foldl (delta_step parse) st ds) =
     errors st @ map p_arguments (filter (\<lambda>c. complete parse c = None) (butlast (group c ds)))"
proof (induction ds arbitrary: st c)
  case Nil
  then show ?case by (simp add: List.map_filter_simps)
next
  case (Cons d ds)
  let ?st = "delta_step parse st d"
  have step: "foldl (delta_step parse) st (d # ds) = foldl (delta_step parse) ?st ds"
    by simp
  show ?case
  proof (cases "d_index d")
    case None
    then have "?st = st" by (simp add: delta_step_def)
    moreover have "group c (d # ds) = group c ds" using None by simp
    ultimately show ?thesis using Cons.IH[OF Cons.prems] unfolding step by simp
  next
    case (Some i)
    show ?thesis
    proof (cases "i = p_index c")
      case True
      have c: "currentToolCall ?st = Some (extend_slot c d)"
        and t: "toolCalls ?st = toolCalls st" and e: "errors ?st = errors st"
        using Some True Cons.prems by (simp_all add: delta_step_def)
      have g: "group c (d # ds) = group (extend_slot c d) ds" using Some True by simp
      show ?thesis using Cons.IH[OF c] unfolding step g t e .
    next
      case False
      have c: "currentToolCall ?st = Some (open_slot i d)"
        using Some False Cons.prems by (simp add: delta_step_def)
      have t: "toolCalls ?st = toolCalls st @ List.map_filter (complete parse) [c]"
        and e: "errors ?st = errors st @ map p_arguments (filter (\<lambda>c. complete parse c = None) [c])"
        using Some False Cons.prems
        by (cases "complete parse c"; simp add: delta_step_def finalize_def List.map_filter_simps)+
      have g: "group c (d # ds) = c # group (open_slot i d) ds" using Some False by simp
      have l: "last (c # group (open_slot i d) ds) = last (group (open_slot i d) ds)"
        and b: "butlast (c # group (open_slot i d) ds) = c # butlast (group (open_slot i d) ds)"
        using group_not_Nil[of "open_slot i d" ds] by simp_all
      have f: "filter (\<lambda>c. complete parse c = None) (c # butlast (group (open_slot i d) ds)) =
          filter (\<lambda>c. complete parse c = None) [c] @
          filter (\<lambda>c. complete parse c = None) (butlast (group (open_slot i d) ds))"
        by simp
      show ?thesis using Cons.IH[OF c] unfolding step g l b t e f
        by (subst map_filter_Cons_append) (simp only: append_assoc map_append)
    qed
  qed
qed

lemma fold_runs_open:
  "currentToolCall st = None \<Longrightarrow>
   currentToolCall (foldl (delta_step parse) st ds) =
     (if runs ds = [] then None else Some (last (runs ds))) \<and>
   toolCalls (foldl (delta_step parse) st ds) =
     toolCalls st @ List.map_filter (complete parse) (butlast (runs ds)) \<and>
   errors (foldl (delta_step parse) st ds) =
     errors st @ map p_arguments (filter (\<lambda>c. complete parse c = None) (butlast (runs ds)))"
proof (induction ds arbitrary: st)
  case Nil
  then show ?case by (simp add: List.map_filter_simps)
next
  case (Cons d ds)
  show ?case
  proof (cases "d_index d")
    case None
    then have "delta_step parse st d = st" by (simp add: delta_step_def)
    with Cons None show ?thesis by simp
  next
    case (Some i)
    let ?st = "delta_step parse st d"
    have c: "currentToolCall ?st = Some (open_slot i d)"
      and t: "toolCalls ?st = toolCalls st" and e: "errors ?st = errors st"
      using Some Cons.prems by (auto simp: delta_step_def)
    from fold_group_open[OF c, of parse ds] t e Some group_not_Nil[of "open_slot i d" ds]
    show ?thesis by simp
  qed
qed

lemma consume_open:
  "currentToolCall (consume parse initial_state chunks) =
     (if runs (stream_deltas chunks) = [] then None else Some (last (runs (stream_deltas chunks))))"
  "toolCalls (consume parse initial_state chunks) =
     List.map_filter (complete parse) (butlast (runs (stream_deltas chunks)))"
  "errors (consume parse initial_state chunks) =
     map p_arguments (filter (\<lambda>c. complete parse c = None) (butlast (runs (stream_deltas chunks))))"
proof -
  let ?ds = "stream_deltas chunks"
  have eq: "tool_part (consume parse initial_state chunks) =
        tool_part (foldl (delta_step parse) initial_state ?ds)"
    unfolding consume_foldl stream_deltas_def by (rule chunk_steps_tool_part) simp
  have n: "currentToolCall initial_state = None" by (simp add: initial_state_def)
  from fold_runs_open[OF n, of parse ?ds] eq
  show "currentToolCall (consume parse initial_state chunks) =
     (if runs (stream_deltas chunks) = [] then None else Some (last (runs (stream_deltas chunks))))"
  "toolCalls (consume parse initial_state chunks) =
     List.map_filter (complete parse) (butlast (runs (stream_deltas chunks)))"
  "errors (consume parse initial_state chunks) =
     map p_arguments (filter (\<lambda>c. complete parse c = None) (butlast (runs (stream_deltas chunks))))"
    by (simp_all add: tool_part_def initial_state_def)
qed

lemma outputText_delta_step: "outputText (delta_step parse st d) = outputText st"
proof (cases "d_index d")
  case None
  then show ?thesis by (simp add: delta_step_def)
next
  case (Some i)
  show ?thesis
  proof (cases "currentToolCall st")
    case None
    then show ?thesis using Some by (simp add: delta_step_def)
  next
    case c: (Some c)
    show ?thesis
      by (cases "complete parse c") (use Some c in \<open>simp_all add: delta_step_def finalize_def\<close>)
  qed
qed

lemma outputText_foldl_delta: "outputText (foldl (delta_step parse) st ds) = outputText st"
  by (induction ds arbitrary: st) (simp_all add: outputText_delta_step)

lemma outputText_content_step: "outputText (content_step st ch) = outputText st @ or_empty (c_content ch)"
  by (cases "c_content ch") (simp_all add: content_step_def or_empty_def)

lemma outputText_foldl_chunk:
  "outputText (foldl (chunk_step parse) st chs) =
   outputText st @ concat (map (\<lambda>ch. or_empty (c_content ch)) chs)"
  by (induction chs arbitrary: st)
     (simp_all add: chunk_step_def outputText_foldl_delta outputText_content_step)

lemma outputText_finalize: "outputText (finalize parse st) = outputText st"
proof (cases "currentToolCall st")
  case None
  then show ?thesis by (simp add: finalize_def)
next
  case (Some c)
  then show ?thesis by (cases "complete parse c") (simp_all add: finalize_def)
qed

lemma outputText_LLM_call:
  "outputText (LLM_call parse chunks) = concat (map (\<lambda>ch. or_empty (c_content ch)) (until_finish chunks))"
  by (simp add: LLM_call_def outputText_finalize consume_foldl outputText_foldl_chunk initial_state_def)

lemma until_finish_idem: "until_finish (until_finish chunks) = until_finish chunks"
  by (induction chunks) simp_all

lemma LLM_call_until_finish: "LLM_call parse (until_finish chunks) = LLM_call parse chunks"
  by (simp add: LLM_call_def consume_foldl until_finish_idem)

text \<open>
  Claim C1, as the code has it. When the fragments of every slot arrive one after
  the other (no slot index comes back after another index has appeared), the
  completed requests are in the order in which the slot indices first appeared,
  and each one carries the concatenated id and name and the parse of the full
  concatenation of the argument fragments of its slot, in arrival order; a slot
  whose concatenation does not parse is left out.
\<close>

theorem aggregator_contiguous_slots:
  assumes "contiguous (delta_indices (stream_deltas chunks))"
  shows "toolCalls (LLM_call parse chunks) = expected_calls parse (stream_deltas chunks)"
  using assms by (rule LLM_call_contiguous)

theorem aggregator_contiguous_slots_witness:
  \<open>contiguous (delta_indices (stream_deltas sequential_stream)) \<and>
   toolCalls (LLM_call JSON_parse sequential_stream) =
     [\<lparr>tc_id = ''call_a'', tc_name = ''delete_event'', tc_input = JObject [(''eventId'', JString ''e1'')]\<rparr>,
      \<lparr>tc_id = ''call_b'', tc_name = ''get_calendars'', tc_input = JObject []\<rparr>]\<close>
proof -
  have h: "contiguous (delta_indices (stream_deltas sequential_stream))"
    by code_simp
  have e: \<open>expected_calls JSON_parse (stream_deltas sequential_stream) =
     [\<lparr>tc_id = ''call_a'', tc_name = ''delete_event'', tc_input = JObject [(''eventId'', JString ''e1'')]\<rparr>,
      \<lparr>tc_id = ''call_b'', tc_name = ''get_calendars'', tc_input = JObject []\<rparr>]\<close>
    by code_simp
  show ?thesis
    using h aggregator_contiguous_slots[OF h, of JSON_parse] e by simp
qed

text \<open>
  Claim C1 as stated fails on interleaved fragments. With slot 0's arguments in
  three fragments and slot 1's fragment between them, the loop closes slot 0 at
  the change of index and again at the end, both times on a part of the text that
  does not parse: one request is returned, where two are expected. And where the
  parts do parse, each part becomes a request of its own.
\<close>

theorem aggregator_interleaved_counterexample:
  \<open>toolCalls (LLM_call JSON_parse interleaved_stream) =
     [\<lparr>tc_id = ''call_b'', tc_name = ''get_calendars'', tc_input = JObject []\<rparr>] \<and>
   expected_calls JSON_parse (stream_deltas interleaved_stream) =
     [\<lparr>tc_id = ''call_a'', tc_name = ''delete_event'', tc_input = JObject [(''eventId'', JString ''e1'')]\<rparr>,
      \<lparr>tc_id = ''call_b'', tc_name = ''get_calendars'', tc_input = JObject []\<rparr>] \<and>
   toolCalls (LLM_call JSON_parse partial_stream) =
     [\<lparr>tc_id = ''call_a'', tc_name = ''f'', tc_input = JNumber (NInt 1)\<rparr>,
      \<lparr>tc_id = ''call_b'', tc_name = ''g'', tc_input = JObject []\<rparr>,
      \<lparr>tc_id = [], tc_name = [], tc_input = JNumber (NInt 2)\<rparr>] \<and>
   expected_calls JSON_parse (stream_deltas partial_stream) =
     [\<lparr>tc_id = ''call_a'', tc_name = ''f'', tc_input = JNumber (NInt 12)\<rparr>,
      \<lparr>tc_id = ''call_b'', tc_name = ''g'', tc_input = JObject []\<rparr>]\<close>
  by code_simp

text \<open>
  Claim C9. When the loop ends, at a chunk whose finish reason is \<^verbatim>\<open>stop\<close> or
  \<^verbatim>\<open>tool_calls\<close> or with the stream, the slot that is still open is the last run of
  the stream and it is finalized by parsing its accumulated text. When the parse
  fails, the failure is logged and this call alone is missing: the requests
  completed before it are returned, the text of the answer is whole, and the
  chunks after the finish reason play no part.
\<close>

theorem stream_end_finalizes_open_slot:
  assumes "currentToolCall (consume parse initial_state chunks) = Some c"
  shows "c = last (runs (stream_deltas chunks)) \<and>
    toolCalls (consume parse initial_state chunks) =
      List.map_filter (complete parse) (butlast (runs (stream_deltas chunks))) \<and>
    (parse (p_arguments c) = None \<longrightarrow>
      toolCalls (LLM_call parse chunks) = toolCalls (consume parse initial_state chunks) \<and>
      errors (LLM_call parse chunks) = errors (consume parse initial_state chunks) @ [p_arguments c]) \<and>
    (\<forall>v. parse (p_arguments c) = Some v \<longrightarrow>
      toolCalls (LLM_call parse chunks) =
        toolCalls (consume parse initial_state chunks) @ [\<lparr>tc_id = p_id c, tc_name = p_name c, tc_input = v\<rparr>] \<and>
      errors (LLM_call parse chunks) = errors (consume parse initial_state chunks)) \<and>
    outputText (LLM_call parse chunks) = concat (map (\<lambda>ch. or_empty (c_content ch)) (until_finish chunks)) \<and>
    LLM_call parse (until_finish chunks) = LLM_call parse chunks"
proof -
  let ?st = "consume parse initial_state chunks"
  have 1: "c = last (runs (stream_deltas chunks))"
    using assms consume_open(1)[of parse chunks] by (simp split: if_splits)
  have 2: "parse (p_arguments c) = None \<longrightarrow>
      toolCalls (LLM_call parse chunks) = toolCalls ?st \<and>
      errors (LLM_call parse chunks) = errors ?st @ [p_arguments c]"
    using assms by (simp add: LLM_call_def finalize_def complete_def)
  have 3: "\<forall>v. parse (p_arguments c) = Some v \<longrightarrow>
      toolCalls (LLM_call parse chunks) =
        toolCalls ?st @ [\<lparr>tc_id = p_id c, tc_name = p_name c, tc_input = v\<rparr>] \<and>
      errors (LLM_call parse chunks) = errors ?st"
    using assms by (simp add: LLM_call_def finalize_def complete_def)
  show ?thesis
    using 1 2 3 consume_open(2)[of parse chunks] outputText_LLM_call[of parse chunks]
      LLM_call_until_finish[of parse chunks]
    by simp
qed

theorem stream_end_finalizes_open_slot_witness:
  \<open>currentToolCall (consume JSON_parse initial_state truncated_stream) =
     Some \<lparr>p_index = 1, p_id = ''call_b'', p_name = ''delete_event'', p_arguments = ''{"eventId":''\<rparr> \<and>
   JSON_parse ''{"eventId":'' = None \<and>
   toolCalls (LLM_call JSON_parse truncated_stream) =
     [\<lparr>tc_id = ''call_a'', tc_name = ''get_calendars'', tc_input = JObject []\<rparr>] \<and>
   errors (LLM_call JSON_parse truncated_stream) = [''{"eventId":''] \<and>
   outputText (LLM_call JSON_parse truncated_stream) = ''Checking''\<close>
proof -
  let ?c = \<open>\<lparr>p_index = 1, p_id = ''call_b'', p_name = ''delete_event'', p_arguments = ''{"eventId":''\<rparr>\<close>
  have h: "currentToolCall (consume JSON_parse initial_state truncated_stream) = Some ?c"
    by code_simp
  have p: \<open>JSON_parse ''{"eventId":'' = None\<close>
    by code_simp
  have t: "toolCalls (consume JSON_parse initial_state truncated_stream) =
     [\<lparr>tc_id = ''call_a'', tc_name = ''get_calendars'', tc_input = JObject []\<rparr>]"
    by code_simp
  have e: "errors (consume JSON_parse initial_state truncated_stream) = []"
    by code_simp
  have o: "concat (map (\<lambda>ch. or_empty (c_content ch)) (until_finish truncated_stream)) = ''Checking''"
    by code_simp
  note r = stream_end_finalizes_open_slot[OF h]
  from r p have a: "toolCalls (LLM_call JSON_parse truncated_stream) =
      toolCalls (consume JSON_parse initial_state truncated_stream)"
    and b: \<open>errors (LLM_call JSON_parse truncated_stream) =
      errors (consume JSON_parse initial_state truncated_stream) @ [''{"eventId":'']\<close>
    by simp_all
  from r have c: "outputText (LLM_call JSON_parse truncated_stream) =
      concat (map (\<lambda>ch. or_empty (c_content ch)) (until_finish truncated_stream))"
    by blast
  show ?thesis
    unfolding a b c using h p t e o by simp
qed

section \<open>Properties of the conflict check and the free-time search\<close>

lemma conflicts_with_overlaps:
  assumes qs: "Date_parse env startTime = Some qs"
    and qe: "Date_parse env endTime = Some qe"
  shows "conflicts_with env startTime endTime ev = event_overlaps env qs qe ev"
  unfolding conflicts_with_def event_overlaps_def qs qe
  by (auto simp: date_lt_def split: option.splits prod.splits)

lemma checkForConflicts_result:
  "fst (checkForConflicts env now startTime endTime calendarId) =
     (case fst (getEventsInTimeRange env now
             [(''timeMin'', JString startTime), (''timeMax'', JString endTime),
              (''calendarId'', (case calendarId of None \<Rightarrow> JString ''primary'' | Some c \<Rightarrow> c)),
              (''maxResults'', JNumber (NInt 100))]) of
        Inl e \<Rightarrow> Inl e
      | Inr evs \<Rightarrow> Inr (filter (conflicts_with (js env) startTime endTime) evs))"
  unfolding checkForConflicts_def
  by (simp split: prod.splits sum.splits)

text \<open>
  Claim C4. Of the events that the service returns for the window,
  \<^verbatim>\<open>checkForConflicts\<close> keeps exactly those that have a start and an end and
  overlap the window strictly (\<open>existingStart < queryEnd\<close> and
  \<open>existingEnd > queryStart\<close>), in the order of the service; it sends one list
  request, for the window.
\<close>

theorem check_conflicts_strict_overlap:
  assumes "Date_parse (js env) startTime = Some queryStart"
    and "Date_parse (js env) endTime = Some queryEnd"
    and "fst (getEventsInTimeRange env now
             [(''timeMin'', JString startTime), (''timeMax'', JString endTime),
              (''calendarId'', (case calendarId of None \<Rightarrow> JString ''primary'' | Some c \<Rightarrow> c)),
              (''maxResults'', JNumber (NInt 100))]) = Inr existing"
  shows "fst (checkForConflicts env now startTime endTime calendarId) =
           Inr (filter (event_overlaps (js env) queryStart queryEnd) existing)"
proof -
  have "filter (conflicts_with (js env) startTime endTime) existing =
        filter (event_overlaps (js env) queryStart queryEnd) existing"
    by (rule filter_cong[OF refl]) (simp add: conflicts_with_overlaps[OF assms(1,2)])
  then show ?thesis
    unfolding checkForConflicts_result assms(3) by simp
qed

theorem check_conflicts_strict_overlap_witness:
  "Date_parse (js (example_env morning_events)) ''2024-01-15T10:00:00.000Z'' = Some 1705312800000 \<and>
   Date_parse (js (example_env morning_events)) ''2024-01-15T11:00:00.000Z'' = Some 1705316400000 \<and>
   fst (checkForConflicts (example_env morning_events) 0
     ''2024-01-15T10:00:00.000Z'' ''2024-01-15T11:00:00.000Z'' None) =
     Inr [meeting ''short'' ''2024-01-15T10:30:00Z'' ''2024-01-15T10:45:00Z'']"
proof -
  let ?env = "example_env morning_events"
  have a: "Date_parse (js ?env) ''2024-01-15T10:00:00.000Z'' = Some 1705312800000"
    by code_simp
  have b: "Date_parse (js ?env) ''2024-01-15T11:00:00.000Z'' = Some 1705316400000"
    by code_simp
  have c: "fst (getEventsInTimeRange ?env 0
             [(''timeMin'', JString ''2024-01-15T10:00:00.000Z''), (''timeMax'', JString ''2024-01-15T11:00:00.000Z''),
              (''calendarId'', (case None of None \<Rightarrow> JString ''primary'' | Some c \<Rightarrow> c)),
              (''maxResults'', JNumber (NInt 100))]) = Inr morning_events"
    by (simp add: getEventsInTimeRange_def example_env_def)
  have d: "filter (event_overlaps (js ?env) 1705312800000 1705316400000) morning_events =
     [meeting ''short'' ''2024-01-15T10:30:00Z'' ''2024-01-15T10:45:00Z'']"
    by code_simp
  show ?thesis
    using check_conflicts_strict_overlap[OF a b c] a b d by simp
qed

lemma insert_slot_valid:
  "insert_slot (valid_slot a) (map valid_slot bs) = map valid_slot (insort_key fst a bs)"
  by (induction bs) (simp_all add: valid_slot_def starts_no_later_def)

lemma sort_slots_valid: "sort_slots (map valid_slot ivs) = map valid_slot (sort_key fst ivs)"
  unfolding sort_slots_def
  by (induction ivs) (simp_all add: insert_slot_valid)

lemma sweep_valid:
  "0 \<le> d \<Longrightarrow>
   (case sweep d (Some E) (map valid_slot bs) (Some cur) acc of
      (c, fs) \<Rightarrow> (if date_lt c (Some E) then push_if_long d c (Some E) fs else fs)) =
   acc @ filter (\<lambda>(a, b). b - a \<ge> d) (gaps_from E cur bs)"
proof (induction bs arbitrary: cur acc)
  case Nil
  then show ?case by (simp add: date_lt_def push_if_long_def)
next
  case (Cons p bs)
  obtain s e where p: "p = (s, e)" by (cases p)
  let ?acc = "if date_lt (Some cur) (Some s)
        then push_if_long d (Some cur) (date_min (Some s) (Some E)) acc else acc"
  have acc: "?acc = acc @ filter (\<lambda>(a, b). b - a \<ge> d)
      (if cur < s \<and> cur \<le> min s E then [(cur, min s E)] else [])"
    using Cons.prems by (auto simp: date_lt_def push_if_long_def date_min_def)
  have "sweep d (Some E) (map valid_slot (p # bs)) (Some cur) acc =
        sweep d (Some E) (map valid_slot bs) (Some (max cur e)) ?acc"
    by (simp add: p valid_slot_def date_max_def)
  then show ?case
    using Cons.IH[OF Cons.prems, of "max cur e" ?acc] unfolding acc
    by (simp add: p)
qed

lemma free_intervals_valid:
  "0 \<le> d \<Longrightarrow> free_intervals d (Some S) (Some E) (map valid_slot bs) =
     filter (\<lambda>(a, b). b - a \<ge> d) (gaps_from E S bs)"
  using sweep_valid[of d E bs S "[]"] by (simp add: free_intervals_def)

lemma gaps_from_sound:
  "sorted (map fst bs) \<Longrightarrow> (a, b) \<in> set (gaps_from E cur bs) \<Longrightarrow>
   cur \<le> a \<and> a \<le> b \<and> b \<le> E \<and> (\<forall>(s, e) \<in> set bs. \<not> (s < b \<and> a < e)) \<and>
   (a = cur \<or> a \<in> snd ` set bs) \<and> (b = E \<or> b \<in> fst ` set bs)"
proof (induction bs arbitrary: cur)
  case Nil
  then show ?case by (auto split: if_splits)
next
  case (Cons p bs)
  obtain s e where p: "p = (s, e)" by (cases p)
  have sorted: "sorted (map fst bs)" and le: "\<forall>q \<in> set bs. s \<le> fst q"
    using Cons.prems(1) by (auto simp: p)
  from Cons.prems(2) consider
      (head) "cur < s" "cur \<le> min s E" "a = cur" "b = min s E"
    | (tail) "(a, b) \<in> set (gaps_from E (max cur e) bs)"
    by (auto simp: p split: if_splits)
  then show ?case
  proof cases
    case head
    have "\<forall>(s', e') \<in> set (p # bs). \<not> (s' < b \<and> a < e')"
      using le head by (auto simp: p)
    moreover have "b = E \<or> b \<in> fst ` set (p # bs)"
      using head by (auto simp: p min_def)
    ultimately show ?thesis using head by auto
  next
    case tail
    note ih = Cons.IH[OF sorted tail]
    have "\<forall>(s', e') \<in> set (p # bs). \<not> (s' < b \<and> a < e')"
      using ih by (auto simp: p)
    moreover have "a = cur \<or> a \<in> snd ` set (p # bs)"
      using ih by (auto simp: p max_def split: if_splits)
    moreover have "b = E \<or> b \<in> fst ` set (p # bs)"
      using ih by auto
    ultimately show ?thesis using ih by auto
  qed
qed

lemma gaps_from_complete:
  "cur \<le> t \<Longrightarrow> t < E \<Longrightarrow> \<forall>(s, e) \<in> set bs. \<not> (s \<le> t \<and> t < e) \<Longrightarrow>
   \<exists>(a, b) \<in> set (gaps_from E cur bs). a \<le> t \<and> t < b"
proof (induction bs arbitrary: cur)
  case Nil
  then show ?case by simp
next
  case (Cons p bs)
  obtain s e where p: "p = (s, e)" by (cases p)
  show ?case
  proof (cases "t < s")
    case True
    with Cons.prems show ?thesis by (auto simp: p)
  next
    case False
    with Cons.prems have "e \<le> t" by (auto simp: p)
    with Cons.prems have "max cur e \<le> t" by simp
    from Cons.IH[OF this Cons.prems(2)] Cons.prems(3) show ?thesis
      by (auto simp: p)
  qed
qed

lemma findFreeTimeSlots_result:
  "fst (findFreeTimeSlots env now startDate endDate minutes calendarId) =
     (case fst (getEventsInTimeRange env now
             [(''timeMin'', JString startDate), (''timeMax'', JString endDate),
              (''calendarId'', (case calendarId of None \<Rightarrow> JString ''primary'' | Some c \<Rightarrow> c)),
              (''maxResults'', JNumber (NInt 100))]) of
        Inl e \<Rightarrow> Inl e
      | Inr events \<Rightarrow>
          Inr (map (\<lambda>(a, b). (toISOString a, toISOString b))
             (free_intervals (minutes * 60000)
                (Date_parse (js env) startDate) (Date_parse (js env) endDate)
                (busySlots (js env) events))))"
  unfolding findFreeTimeSlots_def
  by (simp split: prod.splits sum.splits)

text \<open>
  Claim C5. With a window and busy events that are valid dates and a minimum of
  \<open>minutes\<close> that is not negative, \<^verbatim>\<open>findFreeTimeSlots\<close> sorts the busy intervals
  by their start and returns, in order, the gaps of at least that length. The
  gaps lie in the window, no busy interval overlaps one, each begins at the start
  of the window or at the end of a busy interval and ends at the end of the
  window or at the start of a busy interval, and every instant of the window
  that no busy interval covers lies in a gap: also before the first busy
  interval and after the last.
\<close>

theorem find_free_time_gaps:
  assumes "Date_parse (js env) startDate = Some S"
    and "Date_parse (js env) endDate = Some E"
    and "fst (getEventsInTimeRange env now
             [(''timeMin'', JString startDate), (''timeMax'', JString endDate),
              (''calendarId'', (case calendarId of None \<Rightarrow> JString ''primary'' | Some c \<Rightarrow> c)),
              (''maxResults'', JNumber (NInt 100))]) = Inr events"
    and "map (\<lambda>ev. (Date_parse (js env) (or_empty (ev_start_dateTime ev)),
                     Date_parse (js env) (or_empty (ev_end_dateTime ev))))
           (filter (\<lambda>ev. truthy_string (ev_start_dateTime ev) \<and> truthy_string (ev_end_dateTime ev)) events)
         = map valid_slot busy"
    and "0 \<le> minutes"
  shows "fst (findFreeTimeSlots env now startDate endDate minutes calendarId) =
      Inr (map (\<lambda>(a, b). (toISOString a, toISOString b))
        (filter (\<lambda>(a, b). b - a \<ge> minutes * 60000) (gaps_from E S (sort_key fst busy)))) \<and>
    sorted (map fst (sort_key fst busy)) \<and> set (sort_key fst busy) = set busy \<and>
    (\<forall>(a, b) \<in> set (gaps_from E S (sort_key fst busy)).
       S \<le> a \<and> a \<le> b \<and> b \<le> E \<and> (\<forall>(s, e) \<in> set busy. \<not> (s < b \<and> a < e)) \<and>
       (a = S \<or> a \<in> snd ` set busy) \<and> (b = E \<or> b \<in> fst ` set busy)) \<and>
    (\<forall>t. S \<le> t \<and> t < E \<and> (\<forall>(s, e) \<in> set busy. \<not> (s \<le> t \<and> t < e)) \<longrightarrow>
       (\<exists>(a, b) \<in> set (gaps_from E S (sort_key fst busy)). a \<le> t \<and> t < b))"
proof -
  let ?bs = "sort_key fst busy"
  have srt: "sorted (map fst ?bs)" by simp
  have st: "set ?bs = set busy" by simp
  have b: "busySlots (js env) events = map valid_slot ?bs"
    unfolding busySlots_def assms(4) by (rule sort_slots_valid)
  have d: "0 \<le> minutes * 60000" using assms(5) by simp
  have 1: "fst (findFreeTimeSlots env now startDate endDate minutes calendarId) =
      Inr (map (\<lambda>(a, b). (toISOString a, toISOString b))
        (filter (\<lambda>(a, b). b - a \<ge> minutes * 60000) (gaps_from E S ?bs)))"
    by (simp add: findFreeTimeSlots_result assms(1,2,3) b free_intervals_valid[OF d])
  have 2: "\<forall>(a, b) \<in> set (gaps_from E S ?bs).
       S \<le> a \<and> a \<le> b \<and> b \<le> E \<and> (\<forall>(s, e) \<in> set busy. \<not> (s < b \<and> a < e)) \<and>
       (a = S \<or> a \<in> snd ` set busy) \<and> (b = E \<or> b \<in> fst ` set busy)"
  proof (clarify)
    fix a b assume "(a, b) \<in> set (gaps_from E S ?bs)"
    from gaps_from_sound[OF srt this] show "S \<le> a \<and> a \<le> b \<and> b \<le> E \<and>
       (\<forall>(s, e) \<in> set busy. \<not> (s < b \<and> a < e)) \<and>
       (a = S \<or> a \<in> snd ` set busy) \<and> (b = E \<or> b \<in> fst ` set busy)"
      unfolding st by blast
  qed
  have 3: "\<forall>t. S \<le> t \<and> t < E \<and> (\<forall>(s, e) \<in> set busy. \<not> (s \<le> t \<and> t < e)) \<longrightarrow>
       (\<exists>(a, b) \<in> set (gaps_from E S ?bs). a \<le> t \<and> t < b)"
  proof (intro allI impI)
    fix t assume h: "S \<le> t \<and> t < E \<and> (\<forall>(s, e) \<in> set busy. \<not> (s \<le> t \<and> t < e))"
    then have "\<forall>(s, e) \<in> set ?bs. \<not> (s \<le> t \<and> t < e)" unfolding st by blast
    with h show "\<exists>(a, b) \<in> set (gaps_from E S ?bs). a \<le> t \<and> t < b"
      by (intro gaps_from_complete) auto
  qed
  show ?thesis using 1 srt st 2 3 by blast
qed

theorem find_free_time_gaps_witness:
  "fst (findFreeTimeSlots (example_env noon_events) 0
        ''2024-01-15T09:00:00.000Z'' ''2024-01-15T17:00:00.000Z'' 60 None) =
     Inr [(''2024-01-15T09:00:00.000Z'', ''2024-01-15T12:00:00.000Z''),
          (''2024-01-15T13:00:00.000Z'', ''2024-01-15T17:00:00.000Z'')]"
proof -
  let ?env = "example_env noon_events"
  have j: "js ?env = utc_env" by (simp add: example_env_def)
  have a0: "Date_parse utc_env ''2024-01-15T12:00:00Z'' = Some 1705320000000" by code_simp
  have b0: "Date_parse utc_env ''2024-01-15T13:00:00Z'' = Some 1705323600000" by code_simp
  have a: "Date_parse (js ?env) ''2024-01-15T09:00:00.000Z'' = Some 1705309200000"
    by code_simp
  have b: "Date_parse (js ?env) ''2024-01-15T17:00:00.000Z'' = Some 1705338000000"
    by code_simp
  have c: "fst (getEventsInTimeRange ?env 0
             [(''timeMin'', JString ''2024-01-15T09:00:00.000Z''), (''timeMax'', JString ''2024-01-15T17:00:00.000Z''),
              (''calendarId'', (case None of None \<Rightarrow> JString ''primary'' | Some c \<Rightarrow> c)),
              (''maxResults'', JNumber (NInt 100))]) = Inr noon_events"
    by (simp add: getEventsInTimeRange_def example_env_def)
  have d: "map (\<lambda>ev. (Date_parse (js ?env) (or_empty (ev_start_dateTime ev)),
                     Date_parse (js ?env) (or_empty (ev_end_dateTime ev))))
           (filter (\<lambda>ev. truthy_string (ev_start_dateTime ev) \<and> truthy_string (ev_end_dateTime ev)) noon_events)
         = map valid_slot [(1705320000000, 1705323600000)]"
    unfolding j by (simp add: noon_events_def meeting_def truthy_string_def or_empty_def valid_slot_def a0 b0)
  have e: "(0::int) \<le> 60" by simp
  have g: "filter (\<lambda>(a, b). b - a \<ge> 60 * 60000)
          (gaps_from 1705338000000 1705309200000 (sort_key fst [(1705320000000, 1705323600000)])) =
        [(1705309200000, 1705320000000), (1705323600000, 1705338000000 :: int)]"
    by simp
  have i1: "toISOString 1705309200000 = ''2024-01-15T09:00:00.000Z''" by code_simp
  have i2: "toISOString 1705320000000 = ''2024-01-15T12:00:00.000Z''" by code_simp
  have i3: "toISOString 1705323600000 = ''2024-01-15T13:00:00.000Z''" by code_simp
  have i4: "toISOString 1705338000000 = ''2024-01-15T17:00:00.000Z''" by code_simp
  have f: "map (\<lambda>(a, b). (toISOString a, toISOString b))
        (filter (\<lambda>(a, b). b - a \<ge> 60 * 60000)
          (gaps_from 1705338000000 1705309200000 (sort_key fst [(1705320000000, 1705323600000)]))) =
     [(''2024-01-15T09:00:00.000Z'', ''2024-01-15T12:00:00.000Z''),
      (''2024-01-15T13:00:00.000Z'', ''2024-01-15T17:00:00.000Z'')]"
    unfolding g by (simp add: i1 i2 i3 i4)
  from find_free_time_gaps[OF a b c d e]
  have "fst (findFreeTimeSlots ?env 0
        ''2024-01-15T09:00:00.000Z'' ''2024-01-15T17:00:00.000Z'' 60 None) =
      Inr (map (\<lambda>(a, b). (toISOString a, toISOString b))
        (filter (\<lambda>(a, b). b - a \<ge> 60 * 60000)
          (gaps_from 1705338000000 1705309200000 (sort_key fst [(1705320000000, 1705323600000)]))))"
    by blast
  then show ?thesis unfolding f .
qed

section \<open>Properties of the tool dispatcher\<close>

lemma includes_unsupported:
  "js_includes (''Unsupported tool: '' @ n) ''googleapis'' = js_includes n ''googleapis''"
  by simp

lemma formatGoogleApiError_plain:
  "m \<noteq> [] \<Longrightarrow> formatGoogleApiError (Error m) = ''Google Calendar API error (unknown): '' @ m"
  by (simp add: formatGoogleApiError_def errorDetails_def own_details_def message_of_def
      first_truthy_def first_code_def truthy_code_def code_text_def)

lemma dispatch_unsupported:
  "tc_name tc \<notin> set registered_tools \<Longrightarrow>
   dispatch env tc auth = (Inl (Error (''Unsupported tool: '' @ tc_name tc)), [])"
  by (simp add: dispatch_def registered_tools_def calendar_tools_def)

text \<open>
  Claim C10, as the code has it. A call whose name is none of the nine tools makes
  no request to the shell or the calendar, and its answer is the error
  \<^verbatim>\<open>Error executing <name>: Unsupported tool: <name>\<close>; when the name contains the
  text \<^verbatim>\<open>googleapis\<close> the handler takes the error for one of the calendar client
  and words it as \<^verbatim>\<open>Google Calendar API error (unknown): Unsupported tool: <name>\<close>.
\<close>

theorem unsupported_tool_error:
  assumes "tc_name tc \<notin> set registered_tools"
  shows "handleToolCall env tc auth =
    (\<lparr>role = ''tool'', tool_call_id = tc_id tc,
      content = ''Error executing '' @ tc_name tc @ '': '' @
        (if js_includes (tc_name tc) ''googleapis'' then ''Google Calendar API error (unknown): '' else []) @
        ''Unsupported tool: '' @ tc_name tc\<rparr>, [])"
proof -
  let ?m = "''Unsupported tool: '' @ tc_name tc"
  have g: "isGoogleApiError (Error ?m) = js_includes (tc_name tc) ''googleapis''"
    unfolding isGoogleApiError_def by (simp add: message_of_def)
  have f: "formatGoogleApiError (Error ?m) = ''Google Calendar API error (unknown): '' @ ?m"
    by (rule formatGoogleApiError_plain) simp
  have ec: "error_content (tc_name tc) (Error ?m) = ''Error executing '' @ tc_name tc @ '': '' @
        (if js_includes (tc_name tc) ''googleapis'' then ''Google Calendar API error (unknown): '' else []) @ ?m"
    unfolding error_content_def g f by (simp add: message_of_def)
  show ?thesis
    unfolding handleToolCall_def dispatch_unsupported[OF assms] using ec by simp
qed

theorem unsupported_tool_error_witness:
  "''read_file'' \<notin> set registered_tools \<and>
   handleToolCall (example_env []) \<lparr>tc_id = ''call_1'', tc_name = ''read_file'', tc_input = JObject []\<rparr> False =
    (\<lparr>role = ''tool'', tool_call_id = ''call_1'',
      content = ''Error executing read_file: Unsupported tool: read_file''\<rparr>, [])"
proof -
  have h: "tc_name \<lparr>tc_id = ''call_1'', tc_name = ''read_file'', tc_input = JObject []\<rparr> \<notin> set registered_tools"
    by (simp add: registered_tools_def calendar_tools_def)
  have i: "\<not> js_includes ''read_file'' ''googleapis''" by simp
  show ?thesis
    using unsupported_tool_error[OF h, of "example_env []" False] h i by simp
qed

text \<open>Claim C10 as stated fails for a name that contains \<^verbatim>\<open>googleapis\<close>.\<close>

theorem unsupported_tool_counterexample:
  "''googleapis'' \<notin> set registered_tools \<and>
   handleToolCall (example_env []) \<lparr>tc_id = ''call_1'', tc_name = ''googleapis'', tc_input = JObject []\<rparr> True =
    (\<lparr>role = ''tool'', tool_call_id = ''call_1'',
      content = ''Error executing googleapis: Google Calendar API error (unknown): Unsupported tool: googleapis''\<rparr>, [])"
  by code_simp






lemma toISOString_not_empty: "toISOString t \<noteq> []"
  by (simp add: toISOString_def)

lemma formatDateTimeForGoogle_Inr:
  assumes "formatDateTimeForGoogle env now v tz = Inr r"
  shows "js_truthy v \<and> (\<exists>t. dateTime r = toISOString t)"
proof -
  from assms have tr: "js_truthy v"
    by (auto simp: formatDateTimeForGoogle_def split: if_splits)
  from assms tr have "format_body env now v tz = Inr r"
    by (auto simp: formatDateTimeForGoogle_def and_then_def split: sum.splits)
  then have "\<exists>t. dateTime r = toISOString t"
    by (auto simp: format_body_def and_then_def split: sum.splits option.splits)
  with tr show ?thesis by simp
qed

lemma normalizeDateTime_Inr:
  assumes "normalizeDateTime env now v name = Inr s"
  shows "js_truthy v \<and> (\<exists>t. s = toISOString t)"
proof -
  from assms obtain r where r: "formatDateTimeForGoogle env now v None = Inr r" and s: "s = dateTime r"
    by (auto simp: normalizeDateTime_def split: sum.splits)
  from formatDateTimeForGoogle_Inr[OF r] s show ?thesis by auto
qed

lemma pure_then_Inl_all: "(\<And>x. \<exists>e. f x = (Inl e, [])) \<Longrightarrow> \<exists>e. pure_then r f = (Inl e, [])"
  by (cases r) (auto simp: pure_then_def)

lemma pure_then_Inr: "pure_then (Inr x) f = f x"
  by (simp add: pure_then_def)

lemma update_event_fails:
  assumes s: "normalizeDateTime (js env) (clock env 0) (js_get input ''startDateTime'') ''startDateTime'' = Inr ns"
    and e: "normalizeDateTime (js env) (clock env 1) (js_get input ''endDateTime'') ''endDateTime'' = Inr ne"
    and p: "date_ge (Date_parse (js env) ns) (Date_parse (js env) ne)"
  shows "\<exists>x. tool_update_event env auth input = (Inl x, [])"
proof -
  from normalizeDateTime_Inr[OF s] normalizeDateTime_Inr[OF e]
  have tr: "js_truthy (js_get input ''startDateTime'')" "js_truthy (js_get input ''endDateTime'')"
    and ne: "ns \<noteq> []" "ne \<noteq> []"
    by (auto simp: toISOString_not_empty)
  have a: "normalize_optional env 0 (js_get input ''startDateTime'') ''startDateTime'' = Inr (Some ns)"
    and b: "normalize_optional env 1 (js_get input ''endDateTime'') ''endDateTime'' = Inr (Some ne)"
    using tr s e by (simp_all add: normalize_optional_def and_then_def)
  have c: "start_not_before_end (js env) (Some ns) (Some ne)"
    using p ne by (simp add: start_not_before_end_def)
  have f: "pure_then (if start_not_before_end (js env) (Some ns) (Some ne)
                   then Inl (Error ''startDateTime must be before endDateTime'') else Inr ()) k =
           (Inl (Error ''startDateTime must be before endDateTime''), [])" for k :: "unit \<Rightarrow> (thrown + string) \<times> effect list"
    using c by (simp add: pure_then_def)
  show ?thesis
  proof (cases "\<not> auth \<or> input = JNull")
    case True
    then show ?thesis unfolding tool_update_event_def by auto
  next
    case False
    then have au: "auth" and nn: "input \<noteq> JNull" by auto
    show ?thesis
      unfolding tool_update_event_def
      apply (simp only: au nn if_False if_True not_True_eq_False)
      apply (rule pure_then_Inl_all)
      apply (rule pure_then_Inl_all)
      apply (simp only: a b pure_then_Inr)
      apply (rule pure_then_Inl_all)
      apply (rule pure_then_Inl_all)
      apply (rule pure_then_Inl_all)
      apply (rule pure_then_Inl_all)
      apply (simp only: f)
      apply blast
      done
  qed
qed


lemma update_event_exact:
  assumes s: "normalizeDateTime (js env) (clock env 0) (js_get input ''startDateTime'') ''startDateTime'' = Inr ns"
    and e: "normalizeDateTime (js env) (clock env 1) (js_get input ''endDateTime'') ''endDateTime'' = Inr ne"
    and p: "date_ge (Date_parse (js env) ns) (Date_parse (js env) ne)"
    and v: "validateString (js_get input ''eventId'') ''eventId'' = Inr ()"
      "js_truthy (js_get input ''eventId'')"
      "validateString (js_get input ''title'') ''title'' = Inr ()"
      "validateString (js_get input ''description'') ''description'' = Inr ()"
      "validateString (js_get input ''location'') ''location'' = Inr ()"
      "validateEmailArray (js_get input ''attendees'') ''attendees'' = Inr ()"
  shows "tool_update_event env True input = (Inl (Error ''startDateTime must be before endDateTime''), [])"
proof -
  from normalizeDateTime_Inr[OF s] normalizeDateTime_Inr[OF e]
  have tr: "js_truthy (js_get input ''startDateTime'')" "js_truthy (js_get input ''endDateTime'')"
    and ne: "ns \<noteq> []" "ne \<noteq> []"
    by (auto simp: toISOString_not_empty)
  have a: "normalize_optional env 0 (js_get input ''startDateTime'') ''startDateTime'' = Inr (Some ns)"
    and b: "normalize_optional env 1 (js_get input ''endDateTime'') ''endDateTime'' = Inr (Some ne)"
    using tr s e by (simp_all add: normalize_optional_def and_then_def)
  have c: "start_not_before_end (js env) (Some ns) (Some ne)"
    using p ne by (simp add: start_not_before_end_def)
  have f: "pure_then (if start_not_before_end (js env) (Some ns) (Some ne)
                   then Inl (Error ''startDateTime must be before endDateTime'') else Inr ()) k =
           (Inl (Error ''startDateTime must be before endDateTime''), [])" for k :: "unit \<Rightarrow> (thrown + string) \<times> effect list"
    using c by (simp add: pure_then_def)
  have nn: "input \<noteq> JNull" using v(2) by (auto simp: js_get_def js_truthy_def)
  have t: "(if js_truthy (js_get input ''eventId'') then Inr ()
            else Inl (Error ''eventId is required and cannot be empty'')) = (Inr () :: thrown + unit)"
    using v(2) by simp
  show ?thesis
    unfolding tool_update_event_def
    by (simp only: nn if_False if_True not_True_eq_False v t a b pure_then_Inr f)
qed

lemma ordering_error_content:
  "error_content ''update_event'' (Error ''startDateTime must be before endDateTime'') =
     ''Error executing update_event: startDateTime must be before endDateTime''"
proof -
  have "\<not> isGoogleApiError (Error ''startDateTime must be before endDateTime'')"
    unfolding isGoogleApiError_def by (simp add: message_of_def)
  then show ?thesis by (simp add: error_content_def message_of_def)
qed

text \<open>
  Claim C6. An \<^verbatim>\<open>update_event\<close> call gives a start and an end, both are normalized,
  and the normalized start is not before the normalized end (it is later or
  equal). Then the dispatch fails: the answer is an error text and no request
  is made to the calendar. With the handle present and the other arguments
  valid the error is the one of the ordering check.
\<close>

theorem update_event_start_not_before_end:
  assumes "tc_name tc = ''update_event''"
    and "normalizeDateTime (js env) (clock env 0) (js_get (tc_input tc) ''startDateTime'') ''startDateTime'' = Inr ns"
    and "normalizeDateTime (js env) (clock env 1) (js_get (tc_input tc) ''endDateTime'') ''endDateTime'' = Inr ne"
    and "Date_parse (js env) ns = Some a" and "Date_parse (js env) ne = Some b" and "b \<le> a"
  shows "(\<exists>x. handleToolCall env tc auth =
            (\<lparr>role = ''tool'', tool_call_id = tc_id tc, content = error_content ''update_event'' x\<rparr>, [])) \<and>
    (auth \<and> validateString (js_get (tc_input tc) ''eventId'') ''eventId'' = Inr () \<and>
       js_truthy (js_get (tc_input tc) ''eventId'') \<and>
       validateString (js_get (tc_input tc) ''title'') ''title'' = Inr () \<and>
       validateString (js_get (tc_input tc) ''description'') ''description'' = Inr () \<and>
       validateString (js_get (tc_input tc) ''location'') ''location'' = Inr () \<and>
       validateEmailArray (js_get (tc_input tc) ''attendees'') ''attendees'' = Inr () \<longrightarrow>
     handleToolCall env tc auth =
       (\<lparr>role = ''tool'', tool_call_id = tc_id tc,
         content = ''Error executing update_event: startDateTime must be before endDateTime''\<rparr>, []))"
proof -
  have p: "date_ge (Date_parse (js env) ns) (Date_parse (js env) ne)"
    using assms(4-6) by (simp add: date_ge_def)
  have d: "dispatch env tc auth = tool_update_event env auth (tc_input tc)"
    using assms(1) by (simp add: dispatch_def)
  from update_event_fails[OF assms(2,3) p, of auth] obtain x where
    x: "tool_update_event env auth (tc_input tc) = (Inl x, [])" by blast
  have 1: "\<exists>x. handleToolCall env tc auth =
            (\<lparr>role = ''tool'', tool_call_id = tc_id tc, content = error_content ''update_event'' x\<rparr>, [])"
    unfolding handleToolCall_def d x using assms(1) by auto
  have 2: "auth \<and> validateString (js_get (tc_input tc) ''eventId'') ''eventId'' = Inr () \<and>
       js_truthy (js_get (tc_input tc) ''eventId'') \<and>
       validateString (js_get (tc_input tc) ''title'') ''title'' = Inr () \<and>
       validateString (js_get (tc_input tc) ''description'') ''description'' = Inr () \<and>
       validateString (js_get (tc_input tc) ''location'') ''location'' = Inr () \<and>
       validateEmailArray (js_get (tc_input tc) ''attendees'') ''attendees'' = Inr () \<longrightarrow>
     handleToolCall env tc auth =
       (\<lparr>role = ''tool'', tool_call_id = tc_id tc,
         content = ''Error executing update_event: startDateTime must be before endDateTime''\<rparr>, [])"
  proof
    assume h: "auth \<and> validateString (js_get (tc_input tc) ''eventId'') ''eventId'' = Inr () \<and>
       js_truthy (js_get (tc_input tc) ''eventId'') \<and>
       validateString (js_get (tc_input tc) ''title'') ''title'' = Inr () \<and>
       validateString (js_get (tc_input tc) ''description'') ''description'' = Inr () \<and>
       validateString (js_get (tc_input tc) ''location'') ''location'' = Inr () \<and>
       validateEmailArray (js_get (tc_input tc) ''attendees'') ''attendees'' = Inr ()"
    then have au: "auth = True" by simp
    have y: "tool_update_event env auth (tc_input tc) =
        (Inl (Error ''startDateTime must be before endDateTime''), [])"
      unfolding au using h by (intro update_event_exact[OF assms(2,3) p]) simp_all
    show "handleToolCall env tc auth =
       (\<lparr>role = ''tool'', tool_call_id = tc_id tc,
         content = ''Error executing update_event: startDateTime must be before endDateTime''\<rparr>, [])"
      unfolding handleToolCall_def d y using assms(1) by (simp add: ordering_error_content)
  qed
  show ?thesis using 1 2 by blast
qed

lemma normalizeDateTime_iso:
  assumes "isoRegex (trim s)" and "Date_parse env (trim s) = Some t" and "s \<noteq> []"
  shows "normalizeDateTime env now (Some (JString s)) name = Inr (toISOString t)"
proof -
  have p: "parseStringDate env now s = Inr (Some t)"
    using assms(1,2) by (simp add: parseStringDate_def Let_def)
  have b: "format_body env now (Some (JString s)) None =
      Inr \<lparr>dateTime = toISOString t, timeZone = zone_name env\<rparr>"
    by (simp add: format_body_def p and_then_def)
  show ?thesis
    using assms(3) by (simp add: normalizeDateTime_def formatDateTimeForGoogle_def b js_truthy_def)
qed

theorem update_event_start_not_before_end_witness:
  "normalizeDateTime (js (example_env [])) (clock (example_env []) 0)
     (js_get (tc_input (update_call late_start_update)) ''startDateTime'') ''startDateTime'' =
     Inr ''2024-01-15T15:00:00.000Z'' \<and>
   normalizeDateTime (js (example_env [])) (clock (example_env []) 1)
     (js_get (tc_input (update_call late_start_update)) ''endDateTime'') ''endDateTime'' =
     Inr ''2024-01-15T14:00:00.000Z'' \<and>
   handleToolCall (example_env []) (update_call late_start_update) True =
     (\<lparr>role = ''tool'', tool_call_id = ''call_2'',
       content = ''Error executing update_event: startDateTime must be before endDateTime''\<rparr>, [])"
proof -
  let ?env = "example_env []"
  let ?tc = "update_call late_start_update"
  have n: "tc_name ?tc = ''update_event''" "tc_id ?tc = ''call_2''" by (simp_all add: update_call_def)
  have j: "js ?env = utc_env" by (simp add: example_env_def)
  have g: "js_get (tc_input ?tc) ''startDateTime'' = Some (JString ''2024-01-15T15:00:00'')"
    "js_get (tc_input ?tc) ''endDateTime'' = Some (JString ''2024-01-15T14:00:00'')"
    by (simp_all add: update_call_def late_start_update_def js_get_def member_def)
  have t1: "trim ''2024-01-15T15:00:00'' = ''2024-01-15T15:00:00''" by code_simp
  have t2: "trim ''2024-01-15T14:00:00'' = ''2024-01-15T14:00:00''" by code_simp
  have r1: "isoRegex ''2024-01-15T15:00:00''" by code_simp
  have r2: "isoRegex ''2024-01-15T14:00:00''" by code_simp
  have p1: "Date_parse utc_env ''2024-01-15T15:00:00'' = Some 1705330800000" by code_simp
  have p2: "Date_parse utc_env ''2024-01-15T14:00:00'' = Some 1705327200000" by code_simp
  have i1: "toISOString 1705330800000 = ''2024-01-15T15:00:00.000Z''" by code_simp
  have i2: "toISOString 1705327200000 = ''2024-01-15T14:00:00.000Z''" by code_simp
  have s: "normalizeDateTime (js ?env) (clock ?env 0) (js_get (tc_input ?tc) ''startDateTime'') ''startDateTime'' =
     Inr ''2024-01-15T15:00:00.000Z''"
    unfolding j g using normalizeDateTime_iso[of "''2024-01-15T15:00:00''" utc_env 1705330800000]
    by (simp add: t1 r1 p1 i1)
  have e: "normalizeDateTime (js ?env) (clock ?env 1) (js_get (tc_input ?tc) ''endDateTime'') ''endDateTime'' =
     Inr ''2024-01-15T14:00:00.000Z''"
    unfolding j g using normalizeDateTime_iso[of "''2024-01-15T14:00:00''" utc_env 1705327200000]
    by (simp add: t2 r2 p2 i2)
  have a: "Date_parse (js ?env) ''2024-01-15T15:00:00.000Z'' = Some 1705330800000"
    unfolding j by code_simp
  have b: "Date_parse (js ?env) ''2024-01-15T14:00:00.000Z'' = Some 1705327200000"
    unfolding j by code_simp
  have c: "(1705327200000 :: int) \<le> 1705330800000" by simp
  have v: "validateString (js_get (tc_input ?tc) ''eventId'') ''eventId'' = Inr ()"
    "js_truthy (js_get (tc_input ?tc) ''eventId'')"
    "validateString (js_get (tc_input ?tc) ''title'') ''title'' = Inr ()"
    "validateString (js_get (tc_input ?tc) ''description'') ''description'' = Inr ()"
    "validateString (js_get (tc_input ?tc) ''location'') ''location'' = Inr ()"
    "validateEmailArray (js_get (tc_input ?tc) ''attendees'') ''attendees'' = Inr ()"
    by (simp_all add: update_call_def late_start_update_def js_get_def member_def
        validateString_def validateEmailArray_def js_truthy_def)
  from update_event_start_not_before_end[OF n(1) s e a b c, of True] v
  have "handleToolCall ?env ?tc True =
       (\<lparr>role = ''tool'', tool_call_id = tc_id ?tc,
         content = ''Error executing update_event: startDateTime must be before endDateTime''\<rparr>, [])"
    by blast
  then show ?thesis using s e unfolding n by simp
qed

text \<open>
  Claim C7 at the input \<^verbatim>\<open>{"timeMin": ""}\<close> of \<^verbatim>\<open>get_events_in_time_range\<close>. The empty
  string is falsy, so the bound is not normalized; it stays in the copy of the
  input, which is spread over the defaults, and the list request goes out with
  \<^verbatim>\<open>timeMin: ""\<close>, a value that the normalizer refuses.
\<close>

theorem list_query_sends_raw_timeMin:
  "handleToolCall (example_env []) (list_call (JObject [(''timeMin'', JString [])])) True =
     (\<lparr>role = ''tool'', tool_call_id = ''call_1'',
       content = ''No events found in the specified time range.''\<rparr>,
      [EventsList [(''calendarId'', JString ''primary''), (''maxResults'', JNumber (NInt 10)),
         (''timeMin'', JString []), (''singleEvents'', JBool True),
         (''orderBy'', JString ''startTime'')]]) \<and>
   normalizeDateTime utc_env 0 (Some (JString [])) ''timeMin'' =
     Inl (Error ''timeMin: Date input is required'')"
  by code_simp

end
